theory Spec2Isabelle
  imports Main "HOL-Library.Word"
begin

unbundle bit_operations_syntax

section \<open>Token kinds, pattern classes and language flags\<close>

text \<open>
  Modelled from the spec: the token-kind enumeration \<open>E_Token\<close> is declared in a header
  that is not part of \<open>keywords.cpp\<close>. A C++ enumerator is a named integer value, so a
  token kind is a wrapped number; every enumerator that \<open>keywords.cpp\<close> names gets its own
  number below (the numbers only have to differ), and the numbers not used below stand for
  the enumerators this file never mentions.
\<close>

datatype E_Token = E_Token nat

definition CT_NONE :: E_Token where
  "CT_NONE = E_Token 0"

definition CT_ACCESS :: E_Token where
  "CT_ACCESS = E_Token 1"

definition CT_ALIGN :: E_Token where
  "CT_ALIGN = E_Token 2"

definition CT_ARITH :: E_Token where
  "CT_ARITH = E_Token 3"

definition CT_AS :: E_Token where
  "CT_AS = E_Token 4"

definition CT_ASM :: E_Token where
  "CT_ASM = E_Token 5"

definition CT_ASSERT :: E_Token where
  "CT_ASSERT = E_Token 6"

definition CT_ATTRIBUTE :: E_Token where
  "CT_ATTRIBUTE = E_Token 7"

definition CT_AUTORELEASEPOOL :: E_Token where
  "CT_AUTORELEASEPOOL = E_Token 8"

definition CT_BASE :: E_Token where
  "CT_BASE = E_Token 9"

definition CT_BODY :: E_Token where
  "CT_BODY = E_Token 10"

definition CT_BREAK :: E_Token where
  "CT_BREAK = E_Token 11"

definition CT_CASE :: E_Token where
  "CT_CASE = E_Token 12"

definition CT_CATCH :: E_Token where
  "CT_CATCH = E_Token 13"

definition CT_CHAR :: E_Token where
  "CT_CHAR = E_Token 14"

definition CT_CLASS :: E_Token where
  "CT_CLASS = E_Token 15"

definition CT_CNG_HASINC :: E_Token where
  "CT_CNG_HASINC = E_Token 16"

definition CT_CNG_HASINCN :: E_Token where
  "CT_CNG_HASINCN = E_Token 17"

definition CT_COMMENT_EMBED :: E_Token where
  "CT_COMMENT_EMBED = E_Token 18"

definition CT_CONSTRUCT :: E_Token where
  "CT_CONSTRUCT = E_Token 19"

definition CT_CONTINUE :: E_Token where
  "CT_CONTINUE = E_Token 20"

definition CT_DEBUG :: E_Token where
  "CT_DEBUG = E_Token 21"

definition CT_DEBUGGER :: E_Token where
  "CT_DEBUGGER = E_Token 22"

definition CT_DECLSPEC :: E_Token where
  "CT_DECLSPEC = E_Token 23"

definition CT_DECLTYPE :: E_Token where
  "CT_DECLTYPE = E_Token 24"

definition CT_DEFAULT :: E_Token where
  "CT_DEFAULT = E_Token 25"

definition CT_DEFINED :: E_Token where
  "CT_DEFINED = E_Token 26"

definition CT_DELEGATE :: E_Token where
  "CT_DELEGATE = E_Token 27"

definition CT_DELETE :: E_Token where
  "CT_DELETE = E_Token 28"

definition CT_DI :: E_Token where
  "CT_DI = E_Token 29"

definition CT_DO :: E_Token where
  "CT_DO = E_Token 30"

definition CT_D_CAST :: E_Token where
  "CT_D_CAST = E_Token 31"

definition CT_D_MACRO :: E_Token where
  "CT_D_MACRO = E_Token 32"

definition CT_D_MODULE :: E_Token where
  "CT_D_MODULE = E_Token 33"

definition CT_D_SCOPE :: E_Token where
  "CT_D_SCOPE = E_Token 34"

definition CT_D_SCOPE_IF :: E_Token where
  "CT_D_SCOPE_IF = E_Token 35"

definition CT_D_VERSION :: E_Token where
  "CT_D_VERSION = E_Token 36"

definition CT_D_VERSION_IF :: E_Token where
  "CT_D_VERSION_IF = E_Token 37"

definition CT_D_WITH :: E_Token where
  "CT_D_WITH = E_Token 38"

definition CT_ELSE :: E_Token where
  "CT_ELSE = E_Token 39"

definition CT_ELSEIF :: E_Token where
  "CT_ELSEIF = E_Token 40"

definition CT_ENUM :: E_Token where
  "CT_ENUM = E_Token 41"

definition CT_EXPORT :: E_Token where
  "CT_EXPORT = E_Token 42"

definition CT_EXTERN :: E_Token where
  "CT_EXTERN = E_Token 43"

definition CT_FINALLY :: E_Token where
  "CT_FINALLY = E_Token 44"

definition CT_FIXED :: E_Token where
  "CT_FIXED = E_Token 45"

definition CT_FOR :: E_Token where
  "CT_FOR = E_Token 46"

definition CT_FORWARD :: E_Token where
  "CT_FORWARD = E_Token 47"

definition CT_FRIEND :: E_Token where
  "CT_FRIEND = E_Token 48"

definition CT_FUNCTION :: E_Token where
  "CT_FUNCTION = E_Token 49"

definition CT_GETSET :: E_Token where
  "CT_GETSET = E_Token 50"

definition CT_GOTO :: E_Token where
  "CT_GOTO = E_Token 51"

definition CT_HI :: E_Token where
  "CT_HI = E_Token 52"

definition CT_IF :: E_Token where
  "CT_IF = E_Token 53"

definition CT_IMPORT :: E_Token where
  "CT_IMPORT = E_Token 54"

definition CT_IN :: E_Token where
  "CT_IN = E_Token 55"

definition CT_INVARIANT :: E_Token where
  "CT_INVARIANT = E_Token 56"

definition CT_LAZY :: E_Token where
  "CT_LAZY = E_Token 57"

definition CT_LOCK :: E_Token where
  "CT_LOCK = E_Token 58"

definition CT_MACRO_CLOSE :: E_Token where
  "CT_MACRO_CLOSE = E_Token 59"

definition CT_MACRO_ELSE :: E_Token where
  "CT_MACRO_ELSE = E_Token 60"

definition CT_MACRO_OPEN :: E_Token where
  "CT_MACRO_OPEN = E_Token 61"

definition CT_NAMESPACE :: E_Token where
  "CT_NAMESPACE = E_Token 62"

definition CT_NATIVE :: E_Token where
  "CT_NATIVE = E_Token 63"

definition CT_NEW :: E_Token where
  "CT_NEW = E_Token 64"

definition CT_NOEXCEPT :: E_Token where
  "CT_NOEXCEPT = E_Token 65"

definition CT_NOTHROW :: E_Token where
  "CT_NOTHROW = E_Token 66"

definition CT_OC_AVAILABLE :: E_Token where
  "CT_OC_AVAILABLE = E_Token 67"

definition CT_OC_DYNAMIC :: E_Token where
  "CT_OC_DYNAMIC = E_Token 68"

definition CT_OC_END :: E_Token where
  "CT_OC_END = E_Token 69"

definition CT_OC_IMPL :: E_Token where
  "CT_OC_IMPL = E_Token 70"

definition CT_OC_INTF :: E_Token where
  "CT_OC_INTF = E_Token 71"

definition CT_OC_PROPERTY :: E_Token where
  "CT_OC_PROPERTY = E_Token 72"

definition CT_OC_PROPERTY_ATTR :: E_Token where
  "CT_OC_PROPERTY_ATTR = E_Token 73"

definition CT_OC_PROTOCOL :: E_Token where
  "CT_OC_PROTOCOL = E_Token 74"

definition CT_OC_SEL :: E_Token where
  "CT_OC_SEL = E_Token 75"

definition CT_OPERATOR :: E_Token where
  "CT_OPERATOR = E_Token 76"

definition CT_PACKAGE :: E_Token where
  "CT_PACKAGE = E_Token 77"

definition CT_PP_ASM :: E_Token where
  "CT_PP_ASM = E_Token 78"

definition CT_PP_ASSERT :: E_Token where
  "CT_PP_ASSERT = E_Token 79"

definition CT_PP_DEFINE :: E_Token where
  "CT_PP_DEFINE = E_Token 80"

definition CT_PP_DEFINED :: E_Token where
  "CT_PP_DEFINED = E_Token 81"

definition CT_PP_ELSE :: E_Token where
  "CT_PP_ELSE = E_Token 82"

definition CT_PP_EMIT :: E_Token where
  "CT_PP_EMIT = E_Token 83"

definition CT_PP_ENDIF :: E_Token where
  "CT_PP_ENDIF = E_Token 84"

definition CT_PP_ENDINPUT :: E_Token where
  "CT_PP_ENDINPUT = E_Token 85"

definition CT_PP_ENDREGION :: E_Token where
  "CT_PP_ENDREGION = E_Token 86"

definition CT_PP_ERROR :: E_Token where
  "CT_PP_ERROR = E_Token 87"

definition CT_PP_FILE :: E_Token where
  "CT_PP_FILE = E_Token 88"

definition CT_PP_IF :: E_Token where
  "CT_PP_IF = E_Token 89"

definition CT_PP_INCLUDE :: E_Token where
  "CT_PP_INCLUDE = E_Token 90"

definition CT_PP_LINE :: E_Token where
  "CT_PP_LINE = E_Token 91"

definition CT_PP_PRAGMA :: E_Token where
  "CT_PP_PRAGMA = E_Token 92"

definition CT_PP_PROPERTY :: E_Token where
  "CT_PP_PROPERTY = E_Token 93"

definition CT_PP_REGION :: E_Token where
  "CT_PP_REGION = E_Token 94"

definition CT_PP_SECTION :: E_Token where
  "CT_PP_SECTION = E_Token 95"

definition CT_PP_UNDEF :: E_Token where
  "CT_PP_UNDEF = E_Token 96"

definition CT_PREPROC :: E_Token where
  "CT_PREPROC = E_Token 97"

definition CT_QI :: E_Token where
  "CT_QI = E_Token 98"

definition CT_QUALIFIER :: E_Token where
  "CT_QUALIFIER = E_Token 99"

definition CT_Q_EMIT :: E_Token where
  "CT_Q_EMIT = E_Token 100"

definition CT_Q_FOREVER :: E_Token where
  "CT_Q_FOREVER = E_Token 101"

definition CT_Q_GADGET :: E_Token where
  "CT_Q_GADGET = E_Token 102"

definition CT_RETURN :: E_Token where
  "CT_RETURN = E_Token 103"

definition CT_SARITH :: E_Token where
  "CT_SARITH = E_Token 104"

definition CT_SASSIGN :: E_Token where
  "CT_SASSIGN = E_Token 105"

definition CT_SBOOL :: E_Token where
  "CT_SBOOL = E_Token 106"

definition CT_SCOMPARE :: E_Token where
  "CT_SCOMPARE = E_Token 107"

definition CT_SI :: E_Token where
  "CT_SI = E_Token 108"

definition CT_SIZEOF :: E_Token where
  "CT_SIZEOF = E_Token 109"

definition CT_STATE :: E_Token where
  "CT_STATE = E_Token 110"

definition CT_STOCK :: E_Token where
  "CT_STOCK = E_Token 111"

definition CT_STRUCT :: E_Token where
  "CT_STRUCT = E_Token 112"

definition CT_SUPER :: E_Token where
  "CT_SUPER = E_Token 113"

definition CT_SWITCH :: E_Token where
  "CT_SWITCH = E_Token 114"

definition CT_SYNCHRONIZED :: E_Token where
  "CT_SYNCHRONIZED = E_Token 115"

definition CT_TAGOF :: E_Token where
  "CT_TAGOF = E_Token 116"

definition CT_TEMPLATE :: E_Token where
  "CT_TEMPLATE = E_Token 117"

definition CT_THIS :: E_Token where
  "CT_THIS = E_Token 118"

definition CT_THROW :: E_Token where
  "CT_THROW = E_Token 119"

definition CT_TRY :: E_Token where
  "CT_TRY = E_Token 120"

definition CT_TYPE :: E_Token where
  "CT_TYPE = E_Token 121"

definition CT_TYPEDEF :: E_Token where
  "CT_TYPEDEF = E_Token 122"

definition CT_TYPENAME :: E_Token where
  "CT_TYPENAME = E_Token 123"

definition CT_TYPE_CAST :: E_Token where
  "CT_TYPE_CAST = E_Token 124"

definition CT_UNION :: E_Token where
  "CT_UNION = E_Token 125"

definition CT_UNITTEST :: E_Token where
  "CT_UNITTEST = E_Token 126"

definition CT_UNSAFE :: E_Token where
  "CT_UNSAFE = E_Token 127"

definition CT_USING :: E_Token where
  "CT_USING = E_Token 128"

definition CT_USING_STMT :: E_Token where
  "CT_USING_STMT = E_Token 129"

definition CT_VOLATILE :: E_Token where
  "CT_VOLATILE = E_Token 130"

definition CT_WHEN :: E_Token where
  "CT_WHEN = E_Token 131"

definition CT_WHERE :: E_Token where
  "CT_WHERE = E_Token 132"

definition CT_WHILE :: E_Token where
  "CT_WHILE = E_Token 133"

definition CT_WHILE_OF_DO :: E_Token where
  "CT_WHILE_OF_DO = E_Token 134"

definition CT_WORD :: E_Token where
  "CT_WORD = E_Token 135"

text \<open>\<open>CT_WORD_u\<close> is the source's \<open>CT_WORD_\<close> (a name cannot end in an underscore here).\<close>

definition CT_WORD_u :: E_Token where
  "CT_WORD_u = E_Token 136"

text \<open>
  Modelled from the spec: \<open>pattern_class_e\<close>, the structural shapes of section 4.5;
  its declaration is in a header outside \<open>keywords.cpp\<close>.
\<close>

datatype pattern_class_e =
  NONE       \<comment> \<open>no implied structural shape\<close>
| BRACED     \<comment> \<open>braced-only\<close>
| PBRACED    \<comment> \<open>paren-then-braced\<close>
| OPBRACED   \<comment> \<open>optional-paren-then-braced\<close>
| VBRACED    \<comment> \<open>identifier-then-braced\<close>
| PAREN      \<comment> \<open>paren-only\<close>
| OPPAREN    \<comment> \<open>optional-paren-only\<close>
| ELSE       \<comment> \<open>else-like\<close>

text \<open>
  Modelled from the spec: the language-flag macros come from a header outside
  \<open>keywords.cpp\<close>. Each language tag is one bit, \<open>FLAG_PP\<close> is the orthogonal
  preprocessor-only marker, and the aggregate tags cover their member languages
  (\<open>LANG_ALLC\<close> leaves out Pawn). Flag sets are unsigned machine words.
\<close>

type_synonym lang_flag_set = "32 word"

definition LANG_C :: lang_flag_set where "LANG_C = 0x0001"
definition LANG_CPP :: lang_flag_set where "LANG_CPP = 0x0002"
definition LANG_D :: lang_flag_set where "LANG_D = 0x0004"
definition LANG_CS :: lang_flag_set where "LANG_CS = 0x0008"
definition LANG_JAVA :: lang_flag_set where "LANG_JAVA = 0x0010"
definition LANG_OC :: lang_flag_set where "LANG_OC = 0x0020"
definition LANG_VALA :: lang_flag_set where "LANG_VALA = 0x0040"
definition LANG_PAWN :: lang_flag_set where "LANG_PAWN = 0x0080"
definition LANG_ECMA :: lang_flag_set where "LANG_ECMA = 0x0100"
definition LANG_ALLC :: lang_flag_set where "LANG_ALLC = 0x017f"
definition LANG_ALL :: lang_flag_set where "LANG_ALL = 0x0fff"
definition FLAG_PP :: lang_flag_set where "FLAG_PP = 0x8000"

section \<open>The keyword table\<close>

text \<open>\<open>chunk_tag_t\<close>: name, token kind and language flags of one table row.\<close>

record chunk_tag_t =
  tag :: string
  type :: E_Token
  lang_flags :: lang_flag_set

text \<open>The static table \<open>keywords[]\<close> (here \<open>keywords_tbl\<close>), row by row in the order of the source.\<close>

definition keywords_tbl :: "chunk_tag_t list" where
  "keywords_tbl = [
    \<lparr>tag = ''@autoreleasepool'', type = CT_AUTORELEASEPOOL, lang_flags = LANG_OC\<rparr>,
    \<lparr>tag = ''@available'', type = CT_OC_AVAILABLE, lang_flags = LANG_OC\<rparr>,
    \<lparr>tag = ''@catch'', type = CT_CATCH, lang_flags = LANG_OC\<rparr>,
    \<lparr>tag = ''@dynamic'', type = CT_OC_DYNAMIC, lang_flags = LANG_OC\<rparr>,
    \<lparr>tag = ''@end'', type = CT_OC_END, lang_flags = LANG_OC\<rparr>,
    \<lparr>tag = ''@finally'', type = CT_FINALLY, lang_flags = LANG_OC\<rparr>,
    \<lparr>tag = ''@implementation'', type = CT_OC_IMPL, lang_flags = LANG_OC\<rparr>,
    \<lparr>tag = ''@interface'', type = CT_OC_INTF, lang_flags = LANG_OC\<rparr>,
    \<lparr>tag = ''@interface'', type = CT_CLASS, lang_flags = LANG_JAVA\<rparr>,
    \<lparr>tag = ''@private'', type = CT_ACCESS, lang_flags = LANG_OC\<rparr>,
    \<lparr>tag = ''@property'', type = CT_OC_PROPERTY, lang_flags = LANG_OC\<rparr>,
    \<lparr>tag = ''@protected'', type = CT_ACCESS, lang_flags = LANG_OC\<rparr>,
    \<lparr>tag = ''@protocol'', type = CT_OC_PROTOCOL, lang_flags = LANG_OC\<rparr>,
    \<lparr>tag = ''@public'', type = CT_ACCESS, lang_flags = LANG_OC\<rparr>,
    \<lparr>tag = ''@selector'', type = CT_OC_SEL, lang_flags = LANG_OC\<rparr>,
    \<lparr>tag = ''@synchronized'', type = CT_SYNCHRONIZED, lang_flags = LANG_OC\<rparr>,
    \<lparr>tag = ''@synthesize'', type = CT_OC_DYNAMIC, lang_flags = LANG_OC\<rparr>,
    \<lparr>tag = ''@throw'', type = CT_THROW, lang_flags = LANG_OC\<rparr>,
    \<lparr>tag = ''@try'', type = CT_TRY, lang_flags = LANG_OC\<rparr>,
    \<lparr>tag = ''API_AVAILABLE'', type = CT_ATTRIBUTE, lang_flags = LANG_OC\<rparr>,
    \<lparr>tag = ''API_DEPRECATED'', type = CT_ATTRIBUTE, lang_flags = LANG_OC\<rparr>,
    \<lparr>tag = ''API_DEPRECATED_WITH_REPLACEMENT'', type = CT_ATTRIBUTE, lang_flags = LANG_OC\<rparr>,
    \<lparr>tag = ''API_UNAVAILABLE'', type = CT_ATTRIBUTE, lang_flags = LANG_OC\<rparr>,
    \<lparr>tag = ''BOOL'', type = CT_TYPE, lang_flags = LANG_OC\<rparr>,
    \<lparr>tag = ''INT16_C'', type = CT_TYPE, lang_flags = LANG_CPP\<rparr>,
    \<lparr>tag = ''INT32_C'', type = CT_TYPE, lang_flags = LANG_CPP\<rparr>,
    \<lparr>tag = ''INT64_C'', type = CT_TYPE, lang_flags = LANG_CPP\<rparr>,
    \<lparr>tag = ''INT8_C'', type = CT_TYPE, lang_flags = LANG_CPP\<rparr>,
    \<lparr>tag = ''INTMAX_C'', type = CT_TYPE, lang_flags = LANG_CPP\<rparr>,
    \<lparr>tag = ''NS_ENUM'', type = CT_ENUM, lang_flags = LANG_OC\<rparr>,
    \<lparr>tag = ''NS_OPTIONS'', type = CT_ENUM, lang_flags = LANG_OC\<rparr>,
    \<lparr>tag = ''Q_EMIT'', type = CT_Q_EMIT, lang_flags = LANG_CPP\<rparr>,
    \<lparr>tag = ''Q_FOREACH'', type = CT_FOR, lang_flags = LANG_CPP\<rparr>,
    \<lparr>tag = ''Q_FOREVER'', type = CT_Q_FOREVER, lang_flags = LANG_CPP\<rparr>,
    \<lparr>tag = ''Q_GADGET'', type = CT_Q_GADGET, lang_flags = LANG_CPP\<rparr>,
    \<lparr>tag = ''Q_OBJECT'', type = CT_COMMENT_EMBED, lang_flags = LANG_CPP\<rparr>,
    \<lparr>tag = ''Q_SIGNALS'', type = CT_ACCESS, lang_flags = LANG_CPP\<rparr>,
    \<lparr>tag = ''UINT16_C'', type = CT_TYPE, lang_flags = LANG_CPP\<rparr>,
    \<lparr>tag = ''UINT32_C'', type = CT_TYPE, lang_flags = LANG_CPP\<rparr>,
    \<lparr>tag = ''UINT64_C'', type = CT_TYPE, lang_flags = LANG_CPP\<rparr>,
    \<lparr>tag = ''UINT8_C'', type = CT_TYPE, lang_flags = LANG_CPP\<rparr>,
    \<lparr>tag = ''UINTMAX_C'', type = CT_TYPE, lang_flags = LANG_CPP\<rparr>,
    \<lparr>tag = ''_Bool'', type = CT_TYPE, lang_flags = LANG_C OR LANG_CPP\<rparr>,
    \<lparr>tag = ''_Complex'', type = CT_TYPE, lang_flags = LANG_C OR LANG_CPP\<rparr>,
    \<lparr>tag = ''_Imaginary'', type = CT_TYPE, lang_flags = LANG_C OR LANG_CPP\<rparr>,
    \<lparr>tag = ''_Nonnull'', type = CT_QUALIFIER, lang_flags = LANG_OC\<rparr>,
    \<lparr>tag = ''_Null_unspecified'', type = CT_QUALIFIER, lang_flags = LANG_OC\<rparr>,
    \<lparr>tag = ''_Nullable'', type = CT_QUALIFIER, lang_flags = LANG_OC\<rparr>,
    \<lparr>tag = ''_Pragma'', type = CT_PP_PRAGMA, lang_flags = LANG_ALL OR FLAG_PP\<rparr>,
    \<lparr>tag = ''__DI__'', type = CT_DI, lang_flags = LANG_C OR LANG_CPP\<rparr>,
    \<lparr>tag = ''__HI__'', type = CT_HI, lang_flags = LANG_C OR LANG_CPP\<rparr>,
    \<lparr>tag = ''__QI__'', type = CT_QI, lang_flags = LANG_C OR LANG_CPP\<rparr>,
    \<lparr>tag = ''__SI__'', type = CT_SI, lang_flags = LANG_C OR LANG_CPP\<rparr>,
    \<lparr>tag = ''__asm__'', type = CT_ASM, lang_flags = LANG_C OR LANG_CPP\<rparr>,
    \<lparr>tag = ''__attribute__'', type = CT_ATTRIBUTE, lang_flags = LANG_C OR LANG_CPP OR LANG_OC\<rparr>,
    \<lparr>tag = ''__autoreleasing'', type = CT_QUALIFIER, lang_flags = LANG_C OR LANG_CPP\<rparr>,
    \<lparr>tag = ''__block'', type = CT_QUALIFIER, lang_flags = LANG_C OR LANG_CPP OR LANG_OC\<rparr>,
    \<lparr>tag = ''__bridge'', type = CT_QUALIFIER, lang_flags = LANG_C OR LANG_CPP\<rparr>,
    \<lparr>tag = ''__bridge_retained'', type = CT_QUALIFIER, lang_flags = LANG_C OR LANG_CPP\<rparr>,
    \<lparr>tag = ''__bridge_transfer'', type = CT_QUALIFIER, lang_flags = LANG_C OR LANG_CPP\<rparr>,
    \<lparr>tag = ''__const__'', type = CT_QUALIFIER, lang_flags = LANG_C OR LANG_CPP\<rparr>,
    \<lparr>tag = ''__declspec'', type = CT_DECLSPEC, lang_flags = LANG_C OR LANG_CPP\<rparr>,
    \<lparr>tag = ''__except'', type = CT_CATCH, lang_flags = LANG_C OR LANG_CPP\<rparr>,
    \<lparr>tag = ''__finally'', type = CT_FINALLY, lang_flags = LANG_C OR LANG_CPP\<rparr>,
    \<lparr>tag = ''__has_include'', type = CT_CNG_HASINC, lang_flags = LANG_C OR LANG_CPP OR LANG_OC OR FLAG_PP\<rparr>,
    \<lparr>tag = ''__has_include_next'', type = CT_CNG_HASINCN, lang_flags = LANG_C OR LANG_CPP OR FLAG_PP\<rparr>,
    \<lparr>tag = ''__inline__'', type = CT_QUALIFIER, lang_flags = LANG_C OR LANG_CPP\<rparr>,
    \<lparr>tag = ''__nonnull'', type = CT_QUALIFIER, lang_flags = LANG_OC\<rparr>,
    \<lparr>tag = ''__nothrow__'', type = CT_NOTHROW, lang_flags = LANG_C OR LANG_CPP\<rparr>,
    \<lparr>tag = ''__null_unspecified'', type = CT_QUALIFIER, lang_flags = LANG_OC\<rparr>,
    \<lparr>tag = ''__nullable'', type = CT_QUALIFIER, lang_flags = LANG_OC\<rparr>,
    \<lparr>tag = ''__pragma'', type = CT_PP_PRAGMA, lang_flags = LANG_ALL OR FLAG_PP\<rparr>,
    \<lparr>tag = ''__restrict'', type = CT_QUALIFIER, lang_flags = LANG_C OR LANG_CPP\<rparr>,
    \<lparr>tag = ''__signed__'', type = CT_TYPE, lang_flags = LANG_C OR LANG_CPP\<rparr>,
    \<lparr>tag = ''__strong'', type = CT_QUALIFIER, lang_flags = LANG_C OR LANG_CPP\<rparr>,
    \<lparr>tag = ''__thread'', type = CT_QUALIFIER, lang_flags = LANG_C OR LANG_CPP\<rparr>,
    \<lparr>tag = ''__traits'', type = CT_QUALIFIER, lang_flags = LANG_D\<rparr>,
    \<lparr>tag = ''__try'', type = CT_TRY, lang_flags = LANG_C OR LANG_CPP\<rparr>,
    \<lparr>tag = ''__typeof'', type = CT_DECLTYPE, lang_flags = LANG_C OR LANG_CPP OR LANG_OC\<rparr>,
    \<lparr>tag = ''__typeof__'', type = CT_DECLTYPE, lang_flags = LANG_C OR LANG_CPP\<rparr>,
    \<lparr>tag = ''__unsafe_unretained'', type = CT_QUALIFIER, lang_flags = LANG_OC\<rparr>,
    \<lparr>tag = ''__unused'', type = CT_ATTRIBUTE, lang_flags = LANG_C OR LANG_CPP\<rparr>,
    \<lparr>tag = ''__volatile__'', type = CT_QUALIFIER, lang_flags = LANG_C OR LANG_CPP\<rparr>,
    \<lparr>tag = ''__weak'', type = CT_QUALIFIER, lang_flags = LANG_C OR LANG_CPP\<rparr>,
    \<lparr>tag = ''__word__'', type = CT_WORD_u, lang_flags = LANG_C OR LANG_CPP\<rparr>,
    \<lparr>tag = ''abstract'', type = CT_QUALIFIER, lang_flags = LANG_CS OR LANG_D OR LANG_JAVA OR LANG_VALA OR LANG_ECMA\<rparr>,
    \<lparr>tag = ''add'', type = CT_GETSET, lang_flags = LANG_CS\<rparr>,
    \<lparr>tag = ''alias'', type = CT_USING, lang_flags = LANG_D\<rparr>,
    \<lparr>tag = ''align'', type = CT_ALIGN, lang_flags = LANG_D\<rparr>,
    \<lparr>tag = ''alignof'', type = CT_SIZEOF, lang_flags = LANG_CPP\<rparr>,
    \<lparr>tag = ''and'', type = CT_SBOOL, lang_flags = LANG_CPP\<rparr>,
    \<lparr>tag = ''and_eq'', type = CT_SASSIGN, lang_flags = LANG_CPP\<rparr>,
    \<lparr>tag = ''as'', type = CT_AS, lang_flags = LANG_CS OR LANG_VALA\<rparr>,
    \<lparr>tag = ''asm'', type = CT_ASM, lang_flags = LANG_C OR LANG_CPP OR LANG_D\<rparr>,
    \<lparr>tag = ''asm'', type = CT_PP_ASM, lang_flags = LANG_ALL OR FLAG_PP\<rparr>,
    \<lparr>tag = ''assert'', type = CT_ASSERT, lang_flags = LANG_JAVA\<rparr>,
    \<lparr>tag = ''assert'', type = CT_FUNCTION, lang_flags = LANG_D OR LANG_PAWN\<rparr>,
    \<lparr>tag = ''assert'', type = CT_PP_ASSERT, lang_flags = LANG_PAWN OR FLAG_PP\<rparr>,
    \<lparr>tag = ''auto'', type = CT_TYPE, lang_flags = LANG_C OR LANG_CPP OR LANG_D\<rparr>,
    \<lparr>tag = ''base'', type = CT_BASE, lang_flags = LANG_CS OR LANG_VALA\<rparr>,
    \<lparr>tag = ''bit'', type = CT_TYPE, lang_flags = LANG_D\<rparr>,
    \<lparr>tag = ''bitand'', type = CT_ARITH, lang_flags = LANG_C OR LANG_CPP\<rparr>,
    \<lparr>tag = ''bitor'', type = CT_ARITH, lang_flags = LANG_C OR LANG_CPP\<rparr>,
    \<lparr>tag = ''body'', type = CT_BODY, lang_flags = LANG_D\<rparr>,
    \<lparr>tag = ''bool'', type = CT_TYPE, lang_flags = LANG_C OR LANG_CPP OR LANG_CS OR LANG_VALA\<rparr>,
    \<lparr>tag = ''boolean'', type = CT_TYPE, lang_flags = LANG_JAVA OR LANG_ECMA\<rparr>,
    \<lparr>tag = ''break'', type = CT_BREAK, lang_flags = LANG_ALL\<rparr>,
    \<lparr>tag = ''byte'', type = CT_TYPE, lang_flags = LANG_CS OR LANG_D OR LANG_JAVA OR LANG_ECMA\<rparr>,
    \<lparr>tag = ''callback'', type = CT_QUALIFIER, lang_flags = LANG_VALA\<rparr>,
    \<lparr>tag = ''case'', type = CT_CASE, lang_flags = LANG_ALL\<rparr>,
    \<lparr>tag = ''cast'', type = CT_D_CAST, lang_flags = LANG_D\<rparr>,
    \<lparr>tag = ''catch'', type = CT_CATCH, lang_flags = LANG_CPP OR LANG_CS OR LANG_VALA OR LANG_D OR LANG_JAVA OR LANG_ECMA\<rparr>,
    \<lparr>tag = ''cdouble'', type = CT_TYPE, lang_flags = LANG_D\<rparr>,
    \<lparr>tag = ''cent'', type = CT_TYPE, lang_flags = LANG_D\<rparr>,
    \<lparr>tag = ''cfloat'', type = CT_TYPE, lang_flags = LANG_D\<rparr>,
    \<lparr>tag = ''char'', type = CT_CHAR, lang_flags = LANG_PAWN\<rparr>,
    \<lparr>tag = ''char'', type = CT_TYPE, lang_flags = LANG_ALLC\<rparr>,
    \<lparr>tag = ''checked'', type = CT_QUALIFIER, lang_flags = LANG_CS\<rparr>,
    \<lparr>tag = ''class'', type = CT_CLASS, lang_flags = LANG_CPP OR LANG_CS OR LANG_D OR LANG_JAVA OR LANG_VALA OR LANG_ECMA\<rparr>,
    \<lparr>tag = ''compl'', type = CT_ARITH, lang_flags = LANG_CPP\<rparr>,
    \<lparr>tag = ''const'', type = CT_QUALIFIER, lang_flags = LANG_ALL\<rparr>,
    \<lparr>tag = ''const_cast'', type = CT_TYPE_CAST, lang_flags = LANG_CPP\<rparr>,
    \<lparr>tag = ''constexpr'', type = CT_QUALIFIER, lang_flags = LANG_CPP\<rparr>,
    \<lparr>tag = ''construct'', type = CT_CONSTRUCT, lang_flags = LANG_VALA\<rparr>,
    \<lparr>tag = ''continue'', type = CT_CONTINUE, lang_flags = LANG_ALL\<rparr>,
    \<lparr>tag = ''creal'', type = CT_TYPE, lang_flags = LANG_D\<rparr>,
    \<lparr>tag = ''dchar'', type = CT_TYPE, lang_flags = LANG_D\<rparr>,
    \<lparr>tag = ''debug'', type = CT_DEBUG, lang_flags = LANG_D\<rparr>,
    \<lparr>tag = ''debugger'', type = CT_DEBUGGER, lang_flags = LANG_ECMA\<rparr>,
    \<lparr>tag = ''decltype'', type = CT_DECLTYPE, lang_flags = LANG_CPP\<rparr>,
    \<lparr>tag = ''default'', type = CT_DEFAULT, lang_flags = LANG_ALL\<rparr>,
    \<lparr>tag = ''define'', type = CT_PP_DEFINE, lang_flags = LANG_ALL OR FLAG_PP\<rparr>,
    \<lparr>tag = ''defined'', type = CT_DEFINED, lang_flags = LANG_PAWN\<rparr>,
    \<lparr>tag = ''defined'', type = CT_PP_DEFINED, lang_flags = LANG_ALLC OR FLAG_PP\<rparr>,
    \<lparr>tag = ''delegate'', type = CT_DELEGATE, lang_flags = LANG_CS OR LANG_VALA OR LANG_D\<rparr>,
    \<lparr>tag = ''delete'', type = CT_DELETE, lang_flags = LANG_CPP OR LANG_D OR LANG_ECMA OR LANG_VALA\<rparr>,
    \<lparr>tag = ''deprecated'', type = CT_QUALIFIER, lang_flags = LANG_D\<rparr>,
    \<lparr>tag = ''do'', type = CT_DO, lang_flags = LANG_ALL\<rparr>,
    \<lparr>tag = ''double'', type = CT_TYPE, lang_flags = LANG_ALLC\<rparr>,
    \<lparr>tag = ''dynamic_cast'', type = CT_TYPE_CAST, lang_flags = LANG_CPP\<rparr>,
    \<lparr>tag = ''elif'', type = CT_PP_ELSE, lang_flags = LANG_ALLC OR FLAG_PP\<rparr>,
    \<lparr>tag = ''else'', type = CT_ELSE, lang_flags = LANG_ALL\<rparr>,
    \<lparr>tag = ''else'', type = CT_PP_ELSE, lang_flags = LANG_ALL OR FLAG_PP\<rparr>,
    \<lparr>tag = ''elseif'', type = CT_PP_ELSE, lang_flags = LANG_PAWN OR FLAG_PP\<rparr>,
    \<lparr>tag = ''emit'', type = CT_PP_EMIT, lang_flags = LANG_PAWN OR FLAG_PP\<rparr>,
    \<lparr>tag = ''endif'', type = CT_PP_ENDIF, lang_flags = LANG_ALL OR FLAG_PP\<rparr>,
    \<lparr>tag = ''endinput'', type = CT_PP_ENDINPUT, lang_flags = LANG_PAWN OR FLAG_PP\<rparr>,
    \<lparr>tag = ''endregion'', type = CT_PP_ENDREGION, lang_flags = LANG_ALL OR FLAG_PP\<rparr>,
    \<lparr>tag = ''endscript'', type = CT_PP_ENDINPUT, lang_flags = LANG_PAWN OR FLAG_PP\<rparr>,
    \<lparr>tag = ''enum'', type = CT_ENUM, lang_flags = LANG_ALL\<rparr>,
    \<lparr>tag = ''error'', type = CT_PP_ERROR, lang_flags = LANG_PAWN OR FLAG_PP\<rparr>,
    \<lparr>tag = ''errordomain'', type = CT_ENUM, lang_flags = LANG_VALA\<rparr>,
    \<lparr>tag = ''event'', type = CT_TYPE, lang_flags = LANG_CS\<rparr>,
    \<lparr>tag = ''exit'', type = CT_FUNCTION, lang_flags = LANG_PAWN\<rparr>,
    \<lparr>tag = ''explicit'', type = CT_QUALIFIER, lang_flags = LANG_CPP OR LANG_CS\<rparr>,
    \<lparr>tag = ''export'', type = CT_EXPORT, lang_flags = LANG_CPP OR LANG_D OR LANG_ECMA\<rparr>,
    \<lparr>tag = ''extends'', type = CT_QUALIFIER, lang_flags = LANG_JAVA OR LANG_ECMA\<rparr>,
    \<lparr>tag = ''extern'', type = CT_EXTERN, lang_flags = LANG_C OR LANG_CPP OR LANG_OC OR LANG_CS OR LANG_D OR LANG_VALA\<rparr>,
    \<lparr>tag = ''false'', type = CT_WORD, lang_flags = LANG_ALL\<rparr>,
    \<lparr>tag = ''file'', type = CT_PP_FILE, lang_flags = LANG_PAWN OR FLAG_PP\<rparr>,
    \<lparr>tag = ''final'', type = CT_QUALIFIER, lang_flags = LANG_CPP OR LANG_D OR LANG_ECMA\<rparr>,
    \<lparr>tag = ''finally'', type = CT_FINALLY, lang_flags = LANG_D OR LANG_CS OR LANG_VALA OR LANG_ECMA OR LANG_JAVA\<rparr>,
    \<lparr>tag = ''fixed'', type = CT_FIXED, lang_flags = LANG_CS\<rparr>,
    \<lparr>tag = ''flags'', type = CT_TYPE, lang_flags = LANG_VALA\<rparr>,
    \<lparr>tag = ''float'', type = CT_TYPE, lang_flags = LANG_ALLC\<rparr>,
    \<lparr>tag = ''for'', type = CT_FOR, lang_flags = LANG_ALL\<rparr>,
    \<lparr>tag = ''foreach'', type = CT_FOR, lang_flags = LANG_CS OR LANG_D OR LANG_VALA\<rparr>,
    \<lparr>tag = ''foreach_reverse'', type = CT_FOR, lang_flags = LANG_D\<rparr>,
    \<lparr>tag = ''forward'', type = CT_FORWARD, lang_flags = LANG_PAWN\<rparr>,
    \<lparr>tag = ''friend'', type = CT_FRIEND, lang_flags = LANG_CPP\<rparr>,
    \<lparr>tag = ''function'', type = CT_FUNCTION, lang_flags = LANG_D OR LANG_ECMA\<rparr>,
    \<lparr>tag = ''get'', type = CT_GETSET, lang_flags = LANG_CS OR LANG_VALA\<rparr>,
    \<lparr>tag = ''goto'', type = CT_GOTO, lang_flags = LANG_ALL\<rparr>,
    \<lparr>tag = ''idouble'', type = CT_TYPE, lang_flags = LANG_D\<rparr>,
    \<lparr>tag = ''if'', type = CT_IF, lang_flags = LANG_ALL\<rparr>,
    \<lparr>tag = ''if'', type = CT_PP_IF, lang_flags = LANG_ALL OR FLAG_PP\<rparr>,
    \<lparr>tag = ''ifdef'', type = CT_PP_IF, lang_flags = LANG_ALLC OR FLAG_PP\<rparr>,
    \<lparr>tag = ''ifloat'', type = CT_TYPE, lang_flags = LANG_D\<rparr>,
    \<lparr>tag = ''ifndef'', type = CT_PP_IF, lang_flags = LANG_ALLC OR FLAG_PP\<rparr>,
    \<lparr>tag = ''implements'', type = CT_QUALIFIER, lang_flags = LANG_JAVA OR LANG_ECMA\<rparr>,
    \<lparr>tag = ''implicit'', type = CT_QUALIFIER, lang_flags = LANG_CS\<rparr>,
    \<lparr>tag = ''import'', type = CT_IMPORT, lang_flags = LANG_D OR LANG_JAVA OR LANG_ECMA\<rparr>,
    \<lparr>tag = ''import'', type = CT_PP_INCLUDE, lang_flags = LANG_OC OR FLAG_PP\<rparr>,
    \<lparr>tag = ''in'', type = CT_IN, lang_flags = LANG_D OR LANG_CS OR LANG_VALA OR LANG_ECMA OR LANG_OC\<rparr>,
    \<lparr>tag = ''include'', type = CT_PP_INCLUDE, lang_flags = LANG_C OR LANG_CPP OR LANG_OC OR LANG_PAWN OR FLAG_PP\<rparr>,
    \<lparr>tag = ''inline'', type = CT_QUALIFIER, lang_flags = LANG_C OR LANG_CPP\<rparr>,
    \<lparr>tag = ''inout'', type = CT_QUALIFIER, lang_flags = LANG_D\<rparr>,
    \<lparr>tag = ''instanceof'', type = CT_SIZEOF, lang_flags = LANG_JAVA OR LANG_ECMA\<rparr>,
    \<lparr>tag = ''int'', type = CT_TYPE, lang_flags = LANG_ALLC\<rparr>,
    \<lparr>tag = ''interface'', type = CT_CLASS, lang_flags = LANG_CPP OR LANG_CS OR LANG_D OR LANG_JAVA OR LANG_VALA OR LANG_ECMA\<rparr>,
    \<lparr>tag = ''internal'', type = CT_QUALIFIER, lang_flags = LANG_CS OR LANG_VALA\<rparr>,
    \<lparr>tag = ''invariant'', type = CT_INVARIANT, lang_flags = LANG_D\<rparr>,
    \<lparr>tag = ''ireal'', type = CT_TYPE, lang_flags = LANG_D\<rparr>,
    \<lparr>tag = ''is'', type = CT_SCOMPARE, lang_flags = LANG_D OR LANG_CS OR LANG_VALA\<rparr>,
    \<lparr>tag = ''lazy'', type = CT_LAZY, lang_flags = LANG_D\<rparr>,
    \<lparr>tag = ''line'', type = CT_PP_LINE, lang_flags = LANG_PAWN OR FLAG_PP\<rparr>,
    \<lparr>tag = ''lock'', type = CT_LOCK, lang_flags = LANG_CS OR LANG_VALA\<rparr>,
    \<lparr>tag = ''long'', type = CT_TYPE, lang_flags = LANG_ALLC\<rparr>,
    \<lparr>tag = ''macro'', type = CT_D_MACRO, lang_flags = LANG_D\<rparr>,
    \<lparr>tag = ''mixin'', type = CT_CLASS, lang_flags = LANG_D\<rparr>,
    \<lparr>tag = ''module'', type = CT_D_MODULE, lang_flags = LANG_D\<rparr>,
    \<lparr>tag = ''mutable'', type = CT_QUALIFIER, lang_flags = LANG_CPP\<rparr>,
    \<lparr>tag = ''namespace'', type = CT_NAMESPACE, lang_flags = LANG_CPP OR LANG_CS OR LANG_VALA\<rparr>,
    \<lparr>tag = ''native'', type = CT_NATIVE, lang_flags = LANG_PAWN\<rparr>,
    \<lparr>tag = ''native'', type = CT_QUALIFIER, lang_flags = LANG_JAVA OR LANG_ECMA\<rparr>,
    \<lparr>tag = ''new'', type = CT_NEW, lang_flags = LANG_CPP OR LANG_CS OR LANG_D OR LANG_JAVA OR LANG_PAWN OR LANG_VALA OR LANG_ECMA\<rparr>,
    \<lparr>tag = ''noexcept'', type = CT_NOEXCEPT, lang_flags = LANG_CPP\<rparr>,
    \<lparr>tag = ''nonnull'', type = CT_TYPE, lang_flags = LANG_OC\<rparr>,
    \<lparr>tag = ''not'', type = CT_SARITH, lang_flags = LANG_CPP\<rparr>,
    \<lparr>tag = ''not_eq'', type = CT_SCOMPARE, lang_flags = LANG_CPP\<rparr>,
    \<lparr>tag = ''null_resettable'', type = CT_OC_PROPERTY_ATTR, lang_flags = LANG_OC\<rparr>,
    \<lparr>tag = ''null_unspecified'', type = CT_TYPE, lang_flags = LANG_OC\<rparr>,
    \<lparr>tag = ''nullable'', type = CT_TYPE, lang_flags = LANG_OC\<rparr>,
    \<lparr>tag = ''object'', type = CT_TYPE, lang_flags = LANG_CS\<rparr>,
    \<lparr>tag = ''operator'', type = CT_OPERATOR, lang_flags = LANG_CPP OR LANG_CS OR LANG_PAWN\<rparr>,
    \<lparr>tag = ''or'', type = CT_SBOOL, lang_flags = LANG_CPP\<rparr>,
    \<lparr>tag = ''or_eq'', type = CT_SASSIGN, lang_flags = LANG_CPP\<rparr>,
    \<lparr>tag = ''out'', type = CT_QUALIFIER, lang_flags = LANG_CS OR LANG_D OR LANG_VALA\<rparr>,
    \<lparr>tag = ''override'', type = CT_QUALIFIER, lang_flags = LANG_CPP OR LANG_CS OR LANG_D OR LANG_VALA\<rparr>,
    \<lparr>tag = ''package'', type = CT_ACCESS, lang_flags = LANG_D\<rparr>,
    \<lparr>tag = ''package'', type = CT_PACKAGE, lang_flags = LANG_ECMA OR LANG_JAVA\<rparr>,
    \<lparr>tag = ''params'', type = CT_TYPE, lang_flags = LANG_CS OR LANG_VALA\<rparr>,
    \<lparr>tag = ''pragma'', type = CT_PP_PRAGMA, lang_flags = LANG_ALL OR FLAG_PP\<rparr>,
    \<lparr>tag = ''private'', type = CT_ACCESS, lang_flags = LANG_ALLC\<rparr>,
    \<lparr>tag = ''property'', type = CT_PP_PROPERTY, lang_flags = LANG_CS OR FLAG_PP\<rparr>,
    \<lparr>tag = ''protected'', type = CT_ACCESS, lang_flags = LANG_ALLC\<rparr>,
    \<lparr>tag = ''public'', type = CT_ACCESS, lang_flags = LANG_ALL\<rparr>,
    \<lparr>tag = ''readonly'', type = CT_QUALIFIER, lang_flags = LANG_CS\<rparr>,
    \<lparr>tag = ''real'', type = CT_TYPE, lang_flags = LANG_D\<rparr>,
    \<lparr>tag = ''ref'', type = CT_QUALIFIER, lang_flags = LANG_CS OR LANG_VALA\<rparr>,
    \<lparr>tag = ''region'', type = CT_PP_REGION, lang_flags = LANG_ALL OR FLAG_PP\<rparr>,
    \<lparr>tag = ''register'', type = CT_QUALIFIER, lang_flags = LANG_C OR LANG_CPP\<rparr>,
    \<lparr>tag = ''reinterpret_cast'', type = CT_TYPE_CAST, lang_flags = LANG_CPP\<rparr>,
    \<lparr>tag = ''remove'', type = CT_GETSET, lang_flags = LANG_CS\<rparr>,
    \<lparr>tag = ''restrict'', type = CT_QUALIFIER, lang_flags = LANG_C OR LANG_CPP\<rparr>,
    \<lparr>tag = ''return'', type = CT_RETURN, lang_flags = LANG_ALL\<rparr>,
    \<lparr>tag = ''sbyte'', type = CT_TYPE, lang_flags = LANG_CS\<rparr>,
    \<lparr>tag = ''scope'', type = CT_D_SCOPE, lang_flags = LANG_D\<rparr>,
    \<lparr>tag = ''sealed'', type = CT_QUALIFIER, lang_flags = LANG_CS\<rparr>,
    \<lparr>tag = ''section'', type = CT_PP_SECTION, lang_flags = LANG_PAWN OR FLAG_PP\<rparr>,
    \<lparr>tag = ''self'', type = CT_THIS, lang_flags = LANG_OC\<rparr>,
    \<lparr>tag = ''set'', type = CT_GETSET, lang_flags = LANG_CS OR LANG_VALA\<rparr>,
    \<lparr>tag = ''short'', type = CT_TYPE, lang_flags = LANG_ALLC\<rparr>,
    \<lparr>tag = ''signal'', type = CT_ACCESS, lang_flags = LANG_VALA\<rparr>,
    \<lparr>tag = ''signals'', type = CT_ACCESS, lang_flags = LANG_CPP\<rparr>,
    \<lparr>tag = ''signed'', type = CT_TYPE, lang_flags = LANG_C OR LANG_CPP\<rparr>,
    \<lparr>tag = ''size_t'', type = CT_TYPE, lang_flags = LANG_ALLC\<rparr>,
    \<lparr>tag = ''sizeof'', type = CT_SIZEOF, lang_flags = LANG_C OR LANG_CPP OR LANG_CS OR LANG_VALA OR LANG_PAWN\<rparr>,
    \<lparr>tag = ''sleep'', type = CT_SIZEOF, lang_flags = LANG_PAWN\<rparr>,
    \<lparr>tag = ''stackalloc'', type = CT_NEW, lang_flags = LANG_CS\<rparr>,
    \<lparr>tag = ''state'', type = CT_STATE, lang_flags = LANG_PAWN\<rparr>,
    \<lparr>tag = ''static'', type = CT_QUALIFIER, lang_flags = LANG_ALL\<rparr>,
    \<lparr>tag = ''static_cast'', type = CT_TYPE_CAST, lang_flags = LANG_CPP\<rparr>,
    \<lparr>tag = ''stock'', type = CT_STOCK, lang_flags = LANG_PAWN\<rparr>,
    \<lparr>tag = ''strictfp'', type = CT_QUALIFIER, lang_flags = LANG_JAVA\<rparr>,
    \<lparr>tag = ''string'', type = CT_TYPE, lang_flags = LANG_CS OR LANG_VALA\<rparr>,
    \<lparr>tag = ''struct'', type = CT_STRUCT, lang_flags = LANG_C OR LANG_CPP OR LANG_OC OR LANG_CS OR LANG_D OR LANG_VALA\<rparr>,
    \<lparr>tag = ''super'', type = CT_SUPER, lang_flags = LANG_D OR LANG_JAVA OR LANG_ECMA\<rparr>,
    \<lparr>tag = ''switch'', type = CT_SWITCH, lang_flags = LANG_ALL\<rparr>,
    \<lparr>tag = ''synchronized'', type = CT_QUALIFIER, lang_flags = LANG_D OR LANG_ECMA\<rparr>,
    \<lparr>tag = ''synchronized'', type = CT_SYNCHRONIZED, lang_flags = LANG_JAVA\<rparr>,
    \<lparr>tag = ''tagof'', type = CT_TAGOF, lang_flags = LANG_PAWN\<rparr>,
    \<lparr>tag = ''template'', type = CT_TEMPLATE, lang_flags = LANG_CPP OR LANG_D\<rparr>,
    \<lparr>tag = ''this'', type = CT_THIS, lang_flags = LANG_CPP OR LANG_CS OR LANG_D OR LANG_JAVA OR LANG_VALA OR LANG_ECMA\<rparr>,
    \<lparr>tag = ''throw'', type = CT_THROW, lang_flags = LANG_CPP OR LANG_CS OR LANG_VALA OR LANG_D OR LANG_JAVA OR LANG_ECMA\<rparr>,
    \<lparr>tag = ''throws'', type = CT_QUALIFIER, lang_flags = LANG_JAVA OR LANG_ECMA OR LANG_VALA\<rparr>,
    \<lparr>tag = ''transient'', type = CT_QUALIFIER, lang_flags = LANG_JAVA OR LANG_ECMA\<rparr>,
    \<lparr>tag = ''true'', type = CT_WORD, lang_flags = LANG_ALL\<rparr>,
    \<lparr>tag = ''try'', type = CT_TRY, lang_flags = LANG_CPP OR LANG_CS OR LANG_D OR LANG_JAVA OR LANG_ECMA OR LANG_VALA\<rparr>,
    \<lparr>tag = ''tryinclude'', type = CT_PP_INCLUDE, lang_flags = LANG_PAWN OR FLAG_PP\<rparr>,
    \<lparr>tag = ''typedef'', type = CT_TYPEDEF, lang_flags = LANG_C OR LANG_CPP OR LANG_OC OR LANG_D\<rparr>,
    \<lparr>tag = ''typeid'', type = CT_SIZEOF, lang_flags = LANG_CPP OR LANG_D\<rparr>,
    \<lparr>tag = ''typename'', type = CT_TYPENAME, lang_flags = LANG_CPP\<rparr>,
    \<lparr>tag = ''typeof'', type = CT_DECLTYPE, lang_flags = LANG_C OR LANG_CPP\<rparr>,
    \<lparr>tag = ''typeof'', type = CT_SIZEOF, lang_flags = LANG_CS OR LANG_D OR LANG_VALA OR LANG_ECMA\<rparr>,
    \<lparr>tag = ''ubyte'', type = CT_TYPE, lang_flags = LANG_D\<rparr>,
    \<lparr>tag = ''ucent'', type = CT_TYPE, lang_flags = LANG_D\<rparr>,
    \<lparr>tag = ''uint'', type = CT_TYPE, lang_flags = LANG_CS OR LANG_VALA OR LANG_D\<rparr>,
    \<lparr>tag = ''ulong'', type = CT_TYPE, lang_flags = LANG_CS OR LANG_VALA OR LANG_D\<rparr>,
    \<lparr>tag = ''unchecked'', type = CT_QUALIFIER, lang_flags = LANG_CS\<rparr>,
    \<lparr>tag = ''undef'', type = CT_PP_UNDEF, lang_flags = LANG_ALL OR FLAG_PP\<rparr>,
    \<lparr>tag = ''union'', type = CT_UNION, lang_flags = LANG_C OR LANG_CPP OR LANG_D\<rparr>,
    \<lparr>tag = ''unittest'', type = CT_UNITTEST, lang_flags = LANG_D\<rparr>,
    \<lparr>tag = ''unsafe'', type = CT_UNSAFE, lang_flags = LANG_CS\<rparr>,
    \<lparr>tag = ''unsafe_unretained'', type = CT_QUALIFIER, lang_flags = LANG_OC\<rparr>,
    \<lparr>tag = ''unsigned'', type = CT_TYPE, lang_flags = LANG_C OR LANG_CPP\<rparr>,
    \<lparr>tag = ''ushort'', type = CT_TYPE, lang_flags = LANG_CS OR LANG_VALA OR LANG_D\<rparr>,
    \<lparr>tag = ''using'', type = CT_USING, lang_flags = LANG_CPP OR LANG_CS OR LANG_VALA\<rparr>,
    \<lparr>tag = ''var'', type = CT_TYPE, lang_flags = LANG_CS OR LANG_VALA OR LANG_ECMA\<rparr>,
    \<lparr>tag = ''version'', type = CT_D_VERSION, lang_flags = LANG_D\<rparr>,
    \<lparr>tag = ''virtual'', type = CT_QUALIFIER, lang_flags = LANG_CPP OR LANG_CS OR LANG_VALA\<rparr>,
    \<lparr>tag = ''void'', type = CT_TYPE, lang_flags = LANG_ALLC\<rparr>,
    \<lparr>tag = ''volatile'', type = CT_QUALIFIER, lang_flags = LANG_C OR LANG_CPP OR LANG_CS OR LANG_JAVA OR LANG_ECMA\<rparr>,
    \<lparr>tag = ''volatile'', type = CT_VOLATILE, lang_flags = LANG_D\<rparr>,
    \<lparr>tag = ''wchar'', type = CT_TYPE, lang_flags = LANG_D\<rparr>,
    \<lparr>tag = ''wchar_t'', type = CT_TYPE, lang_flags = LANG_C OR LANG_CPP\<rparr>,
    \<lparr>tag = ''weak'', type = CT_QUALIFIER, lang_flags = LANG_VALA\<rparr>,
    \<lparr>tag = ''when'', type = CT_WHEN, lang_flags = LANG_CS\<rparr>,
    \<lparr>tag = ''where'', type = CT_WHERE, lang_flags = LANG_CS\<rparr>,
    \<lparr>tag = ''while'', type = CT_WHILE, lang_flags = LANG_ALL\<rparr>,
    \<lparr>tag = ''with'', type = CT_D_WITH, lang_flags = LANG_D OR LANG_ECMA\<rparr>,
    \<lparr>tag = ''xor'', type = CT_SARITH, lang_flags = LANG_CPP\<rparr>,
    \<lparr>tag = ''xor_eq'', type = CT_SASSIGN, lang_flags = LANG_CPP\<rparr>
  ]"

section \<open>C strings and the comparison of table rows\<close>

text \<open>
  A C string is the bytes before the first NUL. \<open>c_str\<close> is what a \<open>std::string\<close>
  looks like when it is read through \<open>const char *\<close>.
\<close>

definition c_str :: "string \<Rightarrow> string" where
  "c_str s = takeWhile (\<lambda>c. c \<noteq> CHR 0x00) s"

text \<open>
  \<open>strcmp\<close> compares byte by byte, as unsigned values. Only the sign of its result is
  fixed by the C library and only the sign is used by the callers, so the model returns
  \<open>-1\<close>, \<open>0\<close> or \<open>1\<close>.
\<close>

fun strcmp :: "string \<Rightarrow> string \<Rightarrow> int" where
  "strcmp [] [] = 0"
| "strcmp [] (y # ys) = -1"
| "strcmp (x # xs) [] = 1"
| "strcmp (x # xs) (y # ys) =
     (if x = y then strcmp xs ys
      else if (of_char x :: nat) < of_char y then -1 else 1)"

definition kw_compare :: "chunk_tag_t \<Rightarrow> chunk_tag_t \<Rightarrow> int" where
  "kw_compare t1 t2 = strcmp (tag t1) (tag t2)"

text \<open>Exit statuses of \<open>sysexits.h\<close>; a call of \<open>exit\<close> is the \<open>Inl\<close> branch of a result.\<close>

definition EX_OK :: int where "EX_OK = 0"
definition EX_SOFTWARE :: int where "EX_SOFTWARE = 70"
definition EX_IOERR :: int where "EX_IOERR = 74"

text \<open>
  \<open>keywords_are_sorted\<close>: the loop compares each row with its predecessor and leaves the
  process with \<open>EX_SOFTWARE\<close> at the first pair in the wrong order. The loop is written for
  any table, the function of the source runs it on \<open>keywords[]\<close>.
\<close>

fun keywords_are_sorted_in :: "chunk_tag_t list \<Rightarrow> int + bool" where
  "keywords_are_sorted_in (a # b # rest) =
     (if kw_compare a b > 0 then Inl EX_SOFTWARE
      else keywords_are_sorted_in (b # rest))"
| "keywords_are_sorted_in _ = Inr True"

definition keywords_are_sorted :: "int + bool" where
  "keywords_are_sorted = keywords_are_sorted_in keywords_tbl"

section \<open>The state of the module\<close>

text \<open>
  The globals the functions read and write: \<open>cpd.lang_flags\<close> and \<open>cpd.in_preproc\<close>,
  the dynamic keyword map \<open>dkwm\<close>, and the fixed-size array \<open>keyword_for_lang\<close> with
  the number \<open>language_count\<close> of its rows in use. The length of the list is the capacity
  of the array (\<open>MAX_KEYWORDS\<close>, a constant of a header outside \<open>keywords.cpp\<close>). The
  lookup reads rows below \<open>language_count\<close> only; in every state the functions below
  produce, \<open>language_count\<close> is at most the capacity (\<open>kw_inv\<close>).
\<close>

record kw_state =
  cpd_lang_flags :: lang_flag_set
  cpd_in_preproc :: E_Token
  dkwm :: "string \<rightharpoonup> E_Token"
  keyword_for_lang :: "chunk_tag_t list"
  language_count :: nat

text \<open>The rows in use: the Language-Filtered Catalogue.\<close>

definition kw_view :: "kw_state \<Rightarrow> chunk_tag_t list" where
  "kw_view st = take (language_count st) (keyword_for_lang st)"

section \<open>Selecting the keywords of the language\<close>

text \<open>
  The loop of \<open>init_keywords_for_language\<close> over the rows of the table. A row that does
  not fit into the array would be written past its end, which C++ leaves undefined:
  that is the result \<open>None\<close>.
\<close>

fun init_keywords_loop :: "lang_flag_set \<Rightarrow> chunk_tag_t list \<Rightarrow> kw_state \<Rightarrow> kw_state option" where
  "init_keywords_loop local_flags [] st = Some st"
| "init_keywords_loop local_flags (t # rest) st =
     (if lang_flags t AND local_flags \<noteq> 0 then
        (if language_count st < length (keyword_for_lang st) then
           init_keywords_loop local_flags rest
             (st\<lparr>keyword_for_lang := (keyword_for_lang st)[language_count st := t],
                 language_count := language_count st + 1\<rparr>)
         else None)
      else init_keywords_loop local_flags rest st)"

definition init_keywords_for_language :: "kw_state \<Rightarrow> kw_state option" where
  "init_keywords_for_language st =
     init_keywords_loop (cpd_lang_flags st) keywords_tbl (st\<lparr>language_count := 0\<rparr>)"

section \<open>The dynamic keyword map\<close>

text \<open>\<open>add_keyword\<close> overwrites the kind of a known tag and inserts an unknown one.\<close>

definition add_keyword :: "kw_state \<Rightarrow> string \<Rightarrow> E_Token \<Rightarrow> kw_state" where
  "add_keyword st tg ty =
     (case dkwm st tg of
        Some old \<Rightarrow> st\<lparr>dkwm := (dkwm st)(tg \<mapsto> ty)\<rparr>
      | None \<Rightarrow> st\<lparr>dkwm := (dkwm st)(tg \<mapsto> ty)\<rparr>)"

definition clear_keyword_file :: "kw_state \<Rightarrow> kw_state" where
  "clear_keyword_file st = st\<lparr>dkwm := Map.empty\<rparr>"

section \<open>Looking a word up\<close>

text \<open>
  Pointers into \<open>keyword_for_lang\<close> are indices. \<open>kw_static_first\<close> steps back while the
  row before has the same tag.
\<close>

fun kw_static_first :: "chunk_tag_t list \<Rightarrow> nat \<Rightarrow> nat" where
  "kw_static_first arr 0 = 0"
| "kw_static_first arr (Suc prev) =
     (if strcmp (tag (arr ! prev)) (tag (arr ! Suc prev)) = 0
      then kw_static_first arr prev else Suc prev)"

text \<open>
  Modelled from the spec: \<open>language_is_set\<close> is declared outside \<open>keywords.cpp\<close>; it
  tests whether its argument intersects the active language flags.
\<close>

definition language_is_set :: "kw_state \<Rightarrow> lang_flag_set \<Rightarrow> bool" where
  "language_is_set st lang = (cpd_lang_flags st AND lang \<noteq> 0)"

text \<open>
  \<open>kw_static_match\<close> with \<open>orig_list = false\<close>, the only way \<open>keywords.cpp\<close> calls it:
  from the first row of the run, forward to the end of the rows in use.
\<close>

function kw_static_match_loop ::
  "kw_state \<Rightarrow> nat \<Rightarrow> lang_flag_set \<Rightarrow> bool \<Rightarrow> nat \<Rightarrow> nat option" where
  "kw_static_match_loop st tg lf in_pp iter =
     (if iter < language_count st then
        (let pp_iter = (lang_flags (keyword_for_lang st ! iter) AND FLAG_PP \<noteq> 0) in
           if strcmp (tag (keyword_for_lang st ! iter)) (tag (keyword_for_lang st ! tg)) = 0
              \<and> language_is_set st (lang_flags (keyword_for_lang st ! iter))
              \<and> lf AND lang_flags (keyword_for_lang st ! iter) \<noteq> 0
              \<and> in_pp = pp_iter
           then Some iter
           else kw_static_match_loop st tg lf in_pp (iter + 1))
      else None)"
  by pat_completeness auto
termination
  by (relation "measure (\<lambda>(st, tg, lf, in_pp, iter). language_count st - iter)") auto

definition kw_static_match :: "kw_state \<Rightarrow> nat \<Rightarrow> lang_flag_set \<Rightarrow> nat option" where
  "kw_static_match st tg lf =
     (let in_pp = (cpd_in_preproc st \<noteq> CT_NONE \<and> cpd_in_preproc st \<noteq> CT_PP_DEFINE)
      in kw_static_match_loop st tg lf in_pp (kw_static_first (keyword_for_lang st) tg))"

text \<open>
  \<open>bsearch\<close> of the C library: binary search in the first \<open>nmemb\<close> rows of \<open>base\<close>,
  \<open>compar\<close> called with the key first.
\<close>

function bsearch_loop ::
  "chunk_tag_t \<Rightarrow> chunk_tag_t list \<Rightarrow> (chunk_tag_t \<Rightarrow> chunk_tag_t \<Rightarrow> int) \<Rightarrow> nat \<Rightarrow> nat \<Rightarrow> nat option" where
  "bsearch_loop key base compar l u =
     (if l < u then
        (let idx = (l + u) div 2; comparison = compar key (base ! idx) in
           if comparison < 0 then bsearch_loop key base compar l idx
           else if comparison > 0 then bsearch_loop key base compar (idx + 1) u
           else Some idx)
      else None)"
  by pat_completeness auto
termination
  by (relation "measure (\<lambda>(key, base, compar, l, u). u - l)") auto

definition bsearch ::
  "chunk_tag_t \<Rightarrow> chunk_tag_t list \<Rightarrow> nat \<Rightarrow> (chunk_tag_t \<Rightarrow> chunk_tag_t \<Rightarrow> int) \<Rightarrow> nat option" where
  "bsearch key base nmemb compar = bsearch_loop key base compar 0 nmemb"

text \<open>
  \<open>find_keyword_type\<close>. The word is the buffer at \<open>word\<close>, of which \<open>len\<close> bytes are
  taken (the caller passes no more than the buffer holds). The search key has only its
  tag set; the other two fields are never read. The result is the token kind together
  with the state the call leaves.
\<close>

definition find_keyword_type :: "kw_state \<Rightarrow> string \<Rightarrow> nat \<Rightarrow> E_Token \<times> kw_state" where
  "find_keyword_type st word len =
     (if len \<le> 0 then (CT_NONE, st)
      else
        (let ss = take len word in
           case dkwm st ss of
             Some ty \<Rightarrow> (ty, st)
           | None \<Rightarrow>
               (let key = \<lparr>tag = c_str ss, type = CT_NONE, lang_flags = 0\<rparr> in
                  case bsearch key (keyword_for_lang st) (language_count st) kw_compare of
                    None \<Rightarrow> (CT_WORD, st)
                  | Some p_ret \<Rightarrow>
                      (let st' =
                             (if strcmp (tag (keyword_for_lang st ! p_ret)) ''__pragma'' = 0
                                 \<or> strcmp (tag (keyword_for_lang st ! p_ret)) ''_Pragma'' = 0
                              then st\<lparr>cpd_in_preproc := CT_PREPROC\<rparr> else st)
                       in case kw_static_match st' p_ret (cpd_lang_flags st') of
                            None \<Rightarrow> (CT_WORD, st')
                          | Some r \<Rightarrow> (type (keyword_for_lang st' ! r), st')))))"

section \<open>Loading a keyword file\<close>

text \<open>
  A stream is the list of the bytes not read yet. \<open>fgets\<close> with a buffer of \<open>n\<close> bytes
  reads at most \<open>n - 1\<close> of them and stops after a newline; at the end of the file, with
  nothing read, it returns the null pointer (\<open>None\<close>).
\<close>

fun fgets_take :: "nat \<Rightarrow> string \<Rightarrow> string \<times> string" where
  "fgets_take 0 s = ([], s)"
| "fgets_take (Suc k) [] = ([], [])"
| "fgets_take (Suc k) (c # s) =
     (if c = CHR 0x0A then ([c], s)
      else (let (b, r) = fgets_take k s in (c # b, r)))"

definition fgets :: "nat \<Rightarrow> string \<Rightarrow> (string \<times> string) option" where
  "fgets n pf = (if pf = [] then None else Some (fgets_take (n - 1) pf))"

lemma fgets_take_length:
  "length (fst (fgets_take k s)) + length (snd (fgets_take k s)) = length s"
  by (induction k s rule: fgets_take.induct) (auto split: prod.splits)

lemma fgets_take_reads:
  "0 < k \<Longrightarrow> s \<noteq> [] \<Longrightarrow> fst (fgets_take k s) \<noteq> []"
  by (cases k; cases s) (auto split: prod.splits)

text \<open>What the logger is given before the process exits.\<close>

datatype log_msg =
  Fopen_failed string            \<comment> \<open>the file name\<close>
| Invalid_line string nat string \<comment> \<open>the file name, the line number, the first word\<close>

definition max_line_length :: nat where "max_line_length = 256"
definition max_arg_count :: nat where "max_arg_count = 2"

lemma fgets_shorter:
  assumes "fgets max_line_length pf = Some (buf, pf')"
  shows "length pf' < length pf"
proof -
  from assms have ne: "pf \<noteq> []" and eq: "fgets_take 255 pf = (buf, pf')"
    by (auto simp: fgets_def max_line_length_def split: if_splits)
  have "buf \<noteq> []"
    using fgets_take_reads [of 255 pf] ne eq by simp
  moreover have "length buf + length pf' = length pf"
    using fgets_take_length [of 255 pf] eq by simp
  ultimately show ?thesis
    by (cases buf) auto
qed

text \<open>\<open>*args[0]\<close>: the first byte of a C string, the terminating NUL when it is empty.\<close>

definition first_byte :: "string \<Rightarrow> char" where
  "first_byte a = (case a of [] \<Rightarrow> CHR 0x00 | c # cs \<Rightarrow> c)"

text \<open>
  The loop of \<open>load_keyword_file\<close>. \<open>Args::SplitLine\<close> and \<open>CharTable::IsKw1\<close> are
  defined outside \<open>keywords.cpp\<close> and are parameters here: \<open>SplitLine text n\<close> is the
  list of the words stored in \<open>args\<close> (its length is the returned count), each one a C
  string. An exit is \<open>Inl\<close> of the status, the message logged last and the state at that
  moment; a return is \<open>Inr\<close> of the returned status and the state.
\<close>

function load_keyword_loop ::
  "(string \<Rightarrow> nat \<Rightarrow> string list) \<Rightarrow> (char \<Rightarrow> bool) \<Rightarrow> string \<Rightarrow> string \<Rightarrow> nat \<Rightarrow> kw_state
     \<Rightarrow> (int \<times> log_msg \<times> kw_state) + (int \<times> kw_state)" where
  "load_keyword_loop SplitLine IsKw1 filename pf line_no st =
     (case fgets max_line_length pf of
        None \<Rightarrow> Inr (EX_OK, st)
      | Some (buf, pf') \<Rightarrow>
          (let line_no' = line_no + 1;
               buf' = takeWhile (\<lambda>c. c \<noteq> CHR ''#'') (c_str buf);
               args = SplitLine buf' max_arg_count;
               argc = length args
           in if argc > 0 then
                (if argc = 1 \<and> IsKw1 (first_byte (args ! 0))
                 then load_keyword_loop SplitLine IsKw1 filename pf' line_no'
                        (add_keyword st (args ! 0) CT_TYPE)
                 else Inl (EX_SOFTWARE, Invalid_line filename line_no' (args ! 0), st))
              else load_keyword_loop SplitLine IsKw1 filename pf' line_no' st))"
  by pat_completeness auto
termination
  by (relation "measure (\<lambda>(SplitLine, IsKw1, filename, pf, line_no, st). length pf)")
     (auto dest: fgets_shorter)

text \<open>
  \<open>load_keyword_file\<close>: the file system maps the names of the files that can be opened to
  their bytes.
\<close>

definition load_keyword_file ::
  "(string \<Rightarrow> nat \<Rightarrow> string list) \<Rightarrow> (char \<Rightarrow> bool) \<Rightarrow> (string \<rightharpoonup> string) \<Rightarrow> string \<Rightarrow> kw_state
     \<Rightarrow> (int \<times> log_msg \<times> kw_state) + (int \<times> kw_state)" where
  "load_keyword_file SplitLine IsKw1 fs filename st =
     (case fs filename of
        None \<Rightarrow> Inl (EX_IOERR, Fopen_failed filename, st)
      | Some pf \<Rightarrow> load_keyword_loop SplitLine IsKw1 filename pf 0 st)"

section \<open>The pattern class of a token kind\<close>

text \<open>The \<open>switch\<close> of \<open>get_token_pattern_class\<close>, one test per group of case labels.\<close>

definition get_token_pattern_class :: "E_Token \<Rightarrow> pattern_class_e" where
  "get_token_pattern_class tok =
     (if tok = CT_IF \<or> tok = CT_ELSEIF \<or> tok = CT_SWITCH \<or> tok = CT_FOR \<or> tok = CT_WHILE
         \<or> tok = CT_SYNCHRONIZED \<or> tok = CT_USING_STMT \<or> tok = CT_LOCK \<or> tok = CT_D_WITH
         \<or> tok = CT_D_VERSION_IF \<or> tok = CT_D_SCOPE_IF
      then PBRACED
      else if tok = CT_ELSE
      then ELSE
      else if tok = CT_DO \<or> tok = CT_TRY \<or> tok = CT_FINALLY \<or> tok = CT_BODY
         \<or> tok = CT_UNITTEST \<or> tok = CT_UNSAFE \<or> tok = CT_VOLATILE \<or> tok = CT_GETSET
      then BRACED
      else if tok = CT_CATCH \<or> tok = CT_D_VERSION \<or> tok = CT_DEBUG
      then OPBRACED
      else if tok = CT_NAMESPACE
      then VBRACED
      else if tok = CT_WHILE_OF_DO
      then PAREN
      else if tok = CT_INVARIANT
      then OPPAREN
      else NONE)"

section \<open>The state at the start of the process\<close>

text \<open>
  Static storage starts zeroed: no language selected, not inside a directive, no dynamic
  keyword, no row in use. The capacity of \<open>keyword_for_lang\<close> is a parameter.
\<close>

definition start_state :: "nat \<Rightarrow> kw_state" where
  "start_state cap =
     \<lparr>cpd_lang_flags = 0, cpd_in_preproc = CT_NONE, dkwm = Map.empty,
      keyword_for_lang = replicate cap \<lparr>tag = [], type = CT_NONE, lang_flags = 0\<rparr>,
      language_count = 0\<rparr>"

text \<open>A table of three rows with the last two in the wrong order.\<close>

definition bad_tbl :: "chunk_tag_t list" where
  "bad_tbl = [\<lparr>tag = ''do'', type = CT_DO, lang_flags = LANG_ALL\<rparr>,
              \<lparr>tag = ''if'', type = CT_IF, lang_flags = LANG_ALL\<rparr>,
              \<lparr>tag = ''else'', type = CT_ELSE, lang_flags = LANG_ALL\<rparr>]"

text \<open>
  The invariant of the keyword array: the rows in use lie inside the array and are in
  the order of \<open>kw_compare\<close>. It holds at the start and after every
  \<open>init_keywords_for_language\<close>.
\<close>

definition kw_inv :: "kw_state \<Rightarrow> bool" where
  "kw_inv st \<longleftrightarrow>
     language_count st \<le> length (keyword_for_lang st)
     \<and> sorted_wrt (\<lambda>a b. kw_compare a b \<le> 0) (kw_view st)"

section \<open>The loader in the words of the specification\<close>

text \<open>
  The lines of a text: each one ends with its newline, the last one maybe without.
\<close>

fun line_split :: "string \<Rightarrow> string \<times> string" where
  "line_split [] = ([], [])"
| "line_split (c # s) =
     (if c = CHR 0x0A then ([c], s)
      else (let (l, r) = line_split s in (c # l, r)))"

lemma line_split_length:
  "length (fst (line_split s)) + length (snd (line_split s)) = length s"
  by (induction s) (auto split: prod.splits)

lemma line_split_nonempty: "s \<noteq> [] \<Longrightarrow> fst (line_split s) \<noteq> []"
  by (cases s) (auto split: prod.splits)

lemma line_split_shorter:
  assumes "s \<noteq> []" and "(l, r) = line_split s"
  shows "length r < length s"
  using line_split_length [of s] line_split_nonempty [OF assms(1)] assms(2) [symmetric]
  by (cases l) auto

function lines_of :: "string \<Rightarrow> string list" where
  "lines_of s = (if s = [] then [] else (let (l, r) = line_split s in l # lines_of r))"
  by pat_completeness auto
termination
  by (relation "measure length") (auto dest: line_split_shorter)

text \<open>
  The loader as the specification describes it, line by line, to be compared with
  \<open>load_keyword_file\<close>: the comment from the first \<open>#\<close> is dropped; a line without a
  word is skipped; a line of exactly one word that starts with an identifier-start
  character registers the word as \<open>CT_TYPE\<close>; any other line ends the process with
  \<open>EX_SOFTWARE\<close> and a message with the name of the source and the number of the line,
  counted from 1; the end of the source returns \<open>EX_OK\<close>; a source that cannot be opened
  ends the process with \<open>EX_IOERR\<close>. The tokenizer is asked for at most two words, which
  is enough to tell one word from more.
\<close>

fun spec_load_lines ::
  "(string \<Rightarrow> nat \<Rightarrow> string list) \<Rightarrow> (char \<Rightarrow> bool) \<Rightarrow> string \<Rightarrow> string list \<Rightarrow> nat \<Rightarrow> kw_state
     \<Rightarrow> (int \<times> log_msg \<times> kw_state) + (int \<times> kw_state)" where
  "spec_load_lines tokenize ident_start source [] n st = Inr (EX_OK, st)"
| "spec_load_lines tokenize ident_start source (line # rest) n st =
     (case tokenize (takeWhile (\<lambda>c. c \<noteq> CHR ''#'') line) 2 of
        [] \<Rightarrow> spec_load_lines tokenize ident_start source rest (n + 1) st
      | [w] \<Rightarrow>
          (if (case w of [] \<Rightarrow> False | c # cs \<Rightarrow> ident_start c)
           then spec_load_lines tokenize ident_start source rest (n + 1)
                  (st\<lparr>dkwm := (dkwm st)(w \<mapsto> CT_TYPE)\<rparr>)
           else Inl (EX_SOFTWARE, Invalid_line source (n + 1) w, st))
      | w # w' # ws \<Rightarrow> Inl (EX_SOFTWARE, Invalid_line source (n + 1) w, st))"

definition spec_load_from_source ::
  "(string \<Rightarrow> nat \<Rightarrow> string list) \<Rightarrow> (char \<Rightarrow> bool) \<Rightarrow> (string \<rightharpoonup> string) \<Rightarrow> string \<Rightarrow> kw_state
     \<Rightarrow> (int \<times> log_msg \<times> kw_state) + (int \<times> kw_state)" where
  "spec_load_from_source tokenize ident_start fs source st =
     (case fs source of
        None \<Rightarrow> Inl (EX_IOERR, Fopen_failed source, st)
      | Some content \<Rightarrow> spec_load_lines tokenize ident_start source (lines_of content) 0 st)"

text \<open>
  Modelled from the spec: \<open>Args::SplitLine\<close> and \<open>CharTable::IsKw1\<close> are defined outside
  \<open>keywords.cpp\<close>. For the examples a line is tokenized into its words, the maximal runs
  of bytes that are not white space, of which at most \<open>num_args\<close> are returned, and an
  identifier-start character is a letter or an underscore. The theorems about the loader
  hold for every tokenizer and every set of identifier-start characters.
\<close>

definition is_space :: "char \<Rightarrow> bool" where
  "is_space c \<longleftrightarrow> c \<in> {CHR '' '', CHR 0x09, CHR 0x0A, CHR 0x0B, CHR 0x0C, CHR 0x0D}"

fun words_from :: "string \<Rightarrow> string \<Rightarrow> string list" where
  "words_from cur [] = (if cur = [] then [] else [rev cur])"
| "words_from cur (c # s) =
     (if is_space c then (if cur = [] then words_from [] s else rev cur # words_from [] s)
      else words_from (c # cur) s)"

definition split_words :: "string \<Rightarrow> nat \<Rightarrow> string list" where
  "split_words text num_args = take num_args (words_from [] text)"

definition is_ident_start :: "char \<Rightarrow> bool" where
  "is_ident_start c \<longleftrightarrow>
     (of_char c :: nat) \<in> {of_char CHR ''a'' .. of_char CHR ''z''}
     \<or> (of_char c :: nat) \<in> {of_char CHR ''A'' .. of_char CHR ''Z''}
     \<or> c = CHR ''_''"

text \<open>
  Three sources: one comment line of 260 bytes; the example of the specification; a
  source whose second line starts with a digit.
\<close>

definition long_comment :: string where
  "long_comment = CHR ''#'' # replicate 254 CHR '' '' @ ''zap'' @ [CHR 0x0A]"

definition round_trip_source :: string where
  "round_trip_source =
     ''foo'' @ [CHR 0x0A] @ ''# comment'' @ [CHR 0x0A] @ ''bar # trailing'' @ [CHR 0x0A]"

definition bad_source :: string where
  "bad_source = ''foo'' @ [CHR 0x0A] @ ''123abc'' @ [CHR 0x0A] @ ''bar'' @ [CHR 0x0A]"

section \<open>Notions used in the statements and proofs\<close>

text \<open>The test in the body of the loop of \<open>kw_static_match\<close>.\<close>

definition row_test :: "kw_state \<Rightarrow> nat \<Rightarrow> lang_flag_set \<Rightarrow> bool \<Rightarrow> nat \<Rightarrow> bool" where
  "row_test st tg lf in_pp iter \<longleftrightarrow>
     strcmp (tag (keyword_for_lang st ! iter)) (tag (keyword_for_lang st ! tg)) = 0
     \<and> language_is_set st (lang_flags (keyword_for_lang st ! iter))
     \<and> lf AND lang_flags (keyword_for_lang st ! iter) \<noteq> 0
     \<and> in_pp = (lang_flags (keyword_for_lang st ! iter) AND FLAG_PP \<noteq> 0)"

text \<open>
  What the loop asks of a row, in terms of the word looked up: the spelling of the word,
  flags that intersect the active language flags, and the preprocessor-only flag set
  exactly when the context is inside a directive other than \<open>#define\<close>.
\<close>

definition row_selected :: "kw_state \<Rightarrow> string \<Rightarrow> chunk_tag_t \<Rightarrow> bool" where
  "row_selected st key row \<longleftrightarrow>
     tag row = key
     \<and> lang_flags row AND cpd_lang_flags st \<noteq> 0
     \<and> ((cpd_in_preproc st \<noteq> CT_NONE \<and> cpd_in_preproc st \<noteq> CT_PP_DEFINE)
          = (lang_flags row AND FLAG_PP \<noteq> 0))"

text \<open>The state in which the rows are tested: primed by the two pragma spellings.\<close>

definition primed :: "kw_state \<Rightarrow> string \<Rightarrow> kw_state" where
  "primed st key =
     (if key = ''__pragma'' \<or> key = ''_Pragma'' then st\<lparr>cpd_in_preproc := CT_PREPROC\<rparr> else st)"

text \<open>
  The state after \<open>init_keywords_for_language\<close> for the language C, from the start state
  with an array of 300 rows, and the rows it selects.
\<close>

definition lang_c_state :: kw_state where
  "lang_c_state =
     (case init_keywords_for_language ((start_state 300)\<lparr>cpd_lang_flags := LANG_C\<rparr>) of
        Some st \<Rightarrow> st
      | None \<Rightarrow> start_state 300)"

definition lang_c_rows :: "chunk_tag_t list" where
  "lang_c_rows = filter (\<lambda>t. lang_flags t AND LANG_C \<noteq> 0) keywords_tbl"

section \<open>Unfolding the constants\<close>

lemmas E_Token_defs =
  CT_NONE_def CT_ACCESS_def CT_ALIGN_def CT_ARITH_def CT_AS_def CT_ASM_def
  CT_ASSERT_def CT_ATTRIBUTE_def CT_AUTORELEASEPOOL_def CT_BASE_def CT_BODY_def CT_BREAK_def
  CT_CASE_def CT_CATCH_def CT_CHAR_def CT_CLASS_def CT_CNG_HASINC_def CT_CNG_HASINCN_def
  CT_COMMENT_EMBED_def CT_CONSTRUCT_def CT_CONTINUE_def CT_DEBUG_def CT_DEBUGGER_def CT_DECLSPEC_def
  CT_DECLTYPE_def CT_DEFAULT_def CT_DEFINED_def CT_DELEGATE_def CT_DELETE_def CT_DI_def
  CT_DO_def CT_D_CAST_def CT_D_MACRO_def CT_D_MODULE_def CT_D_SCOPE_def CT_D_SCOPE_IF_def
  CT_D_VERSION_def CT_D_VERSION_IF_def CT_D_WITH_def CT_ELSE_def CT_ELSEIF_def CT_ENUM_def
  CT_EXPORT_def CT_EXTERN_def CT_FINALLY_def CT_FIXED_def CT_FOR_def CT_FORWARD_def
  CT_FRIEND_def CT_FUNCTION_def CT_GETSET_def CT_GOTO_def CT_HI_def CT_IF_def
  CT_IMPORT_def CT_IN_def CT_INVARIANT_def CT_LAZY_def CT_LOCK_def CT_MACRO_CLOSE_def
  CT_MACRO_ELSE_def CT_MACRO_OPEN_def CT_NAMESPACE_def CT_NATIVE_def CT_NEW_def CT_NOEXCEPT_def
  CT_NOTHROW_def CT_OC_AVAILABLE_def CT_OC_DYNAMIC_def CT_OC_END_def CT_OC_IMPL_def CT_OC_INTF_def
  CT_OC_PROPERTY_def CT_OC_PROPERTY_ATTR_def CT_OC_PROTOCOL_def CT_OC_SEL_def CT_OPERATOR_def CT_PACKAGE_def
  CT_PP_ASM_def CT_PP_ASSERT_def CT_PP_DEFINE_def CT_PP_DEFINED_def CT_PP_ELSE_def CT_PP_EMIT_def
  CT_PP_ENDIF_def CT_PP_ENDINPUT_def CT_PP_ENDREGION_def CT_PP_ERROR_def CT_PP_FILE_def CT_PP_IF_def
  CT_PP_INCLUDE_def CT_PP_LINE_def CT_PP_PRAGMA_def CT_PP_PROPERTY_def CT_PP_REGION_def CT_PP_SECTION_def
  CT_PP_UNDEF_def CT_PREPROC_def CT_QI_def CT_QUALIFIER_def CT_Q_EMIT_def CT_Q_FOREVER_def
  CT_Q_GADGET_def CT_RETURN_def CT_SARITH_def CT_SASSIGN_def CT_SBOOL_def CT_SCOMPARE_def
  CT_SI_def CT_SIZEOF_def CT_STATE_def CT_STOCK_def CT_STRUCT_def CT_SUPER_def
  CT_SWITCH_def CT_SYNCHRONIZED_def CT_TAGOF_def CT_TEMPLATE_def CT_THIS_def CT_THROW_def
  CT_TRY_def CT_TYPE_def CT_TYPEDEF_def CT_TYPENAME_def CT_TYPE_CAST_def CT_UNION_def
  CT_UNITTEST_def CT_UNSAFE_def CT_USING_def CT_USING_STMT_def CT_VOLATILE_def CT_WHEN_def
  CT_WHERE_def CT_WHILE_def CT_WHILE_OF_DO_def CT_WORD_def CT_WORD_u_def

lemmas lang_defs =
  LANG_C_def LANG_CPP_def LANG_D_def LANG_CS_def LANG_JAVA_def LANG_OC_def
  LANG_VALA_def LANG_PAWN_def LANG_ECMA_def LANG_ALLC_def LANG_ALL_def FLAG_PP_def

section \<open>The empty word\<close>

text \<open>
  Claim C9. With length zero \<open>find_keyword_type\<close> returns \<open>CT_NONE\<close>, whatever the word,
  the dynamic keywords, the language flags and the preprocessor context are, and leaves
  the state as it was; \<open>CT_NONE\<close> is not the kind \<open>CT_WORD\<close> of a plain identifier.
\<close>

theorem find_keyword_type_empty:
  "find_keyword_type st word 0 = (CT_NONE, st) \<and> CT_NONE \<noteq> CT_WORD"
  by (simp add: find_keyword_type_def CT_NONE_def CT_WORD_def)

section \<open>Dynamic keywords come first\<close>

text \<open>
  Claim C2. When the word of a nonzero length is a key of the dynamic keyword map,
  \<open>find_keyword_type\<close> returns the kind stored there, for every setting of the language
  flags and of the preprocessor context and for every content of the keyword arrays.
\<close>

theorem find_keyword_type_override:
  assumes "0 < len" and "dkwm st (take len word) = Some ty"
  shows "find_keyword_type st word len = (ty, st)"
  using assms by (simp add: find_keyword_type_def)

theorem find_keyword_type_override_witness:
  "find_keyword_type (add_keyword (start_state 300) ''if'' CT_TYPE) ''if (x)'' 2
     = (CT_TYPE, add_keyword (start_state 300) ''if'' CT_TYPE)"
  using find_keyword_type_override
          [of 2 "add_keyword (start_state 300) ''if'' CT_TYPE" "''if (x)''" CT_TYPE]
  by (simp add: add_keyword_def start_state_def)

section \<open>The pattern classes\<close>

lemma closed_set_distinct:
  "distinct [CT_IF, CT_ELSEIF, CT_SWITCH, CT_FOR, CT_WHILE, CT_SYNCHRONIZED, CT_USING_STMT,
     CT_LOCK, CT_D_WITH, CT_D_VERSION_IF, CT_D_SCOPE_IF, CT_ELSE, CT_DO, CT_TRY, CT_FINALLY,
     CT_BODY, CT_UNITTEST, CT_UNSAFE, CT_VOLATILE, CT_GETSET, CT_CATCH, CT_D_VERSION,
     CT_DEBUG, CT_NAMESPACE, CT_WHILE_OF_DO, CT_INVARIANT]"
  by (simp add: E_Token_defs)

lemma gtpc_pbraced:
  "tok \<in> {CT_IF, CT_ELSEIF, CT_SWITCH, CT_FOR, CT_WHILE, CT_SYNCHRONIZED, CT_USING_STMT,
            CT_LOCK, CT_D_WITH, CT_D_VERSION_IF, CT_D_SCOPE_IF}
      \<Longrightarrow> get_token_pattern_class tok = PBRACED"
  by (simp add: get_token_pattern_class_def)

lemma gtpc_else: "tok = CT_ELSE \<Longrightarrow> get_token_pattern_class tok = ELSE"
  by (simp add: get_token_pattern_class_def E_Token_defs)

lemma gtpc_braced:
  "tok \<in> {CT_DO, CT_TRY, CT_FINALLY, CT_BODY, CT_UNITTEST, CT_UNSAFE, CT_VOLATILE, CT_GETSET}
      \<Longrightarrow> get_token_pattern_class tok = BRACED"
  unfolding get_token_pattern_class_def E_Token_defs by auto

lemma gtpc_opbraced:
  "tok \<in> {CT_CATCH, CT_D_VERSION, CT_DEBUG} \<Longrightarrow> get_token_pattern_class tok = OPBRACED"
  unfolding get_token_pattern_class_def E_Token_defs by auto

lemma gtpc_vbraced: "tok = CT_NAMESPACE \<Longrightarrow> get_token_pattern_class tok = VBRACED"
  by (simp add: get_token_pattern_class_def E_Token_defs)

lemma gtpc_paren: "tok = CT_WHILE_OF_DO \<Longrightarrow> get_token_pattern_class tok = PAREN"
  by (simp add: get_token_pattern_class_def E_Token_defs)

lemma gtpc_opparen: "tok = CT_INVARIANT \<Longrightarrow> get_token_pattern_class tok = OPPAREN"
  by (simp add: get_token_pattern_class_def E_Token_defs)

lemma gtpc_none:
  "tok \<notin> {CT_IF, CT_ELSEIF, CT_SWITCH, CT_FOR, CT_WHILE, CT_SYNCHRONIZED, CT_USING_STMT,
            CT_LOCK, CT_D_WITH, CT_D_VERSION_IF, CT_D_SCOPE_IF, CT_ELSE, CT_DO, CT_TRY,
            CT_FINALLY, CT_BODY, CT_UNITTEST, CT_UNSAFE, CT_VOLATILE, CT_GETSET, CT_CATCH,
            CT_D_VERSION, CT_DEBUG, CT_NAMESPACE, CT_WHILE_OF_DO, CT_INVARIANT}
      \<Longrightarrow> get_token_pattern_class tok = NONE"
  by (simp add: get_token_pattern_class_def)

text \<open>
  Claim C7. \<open>get_token_pattern_class\<close> is a function of the token kind alone, defined on
  every kind: the eleven kinds of conditions and loops give paren-then-braced, \<open>CT_ELSE\<close>
  gives else-like, the eight kinds from \<open>CT_DO\<close> to \<open>CT_GETSET\<close> give braced-only,
  \<open>CT_CATCH\<close>, \<open>CT_D_VERSION\<close> and \<open>CT_DEBUG\<close> give optional-paren-then-braced,
  \<open>CT_NAMESPACE\<close> gives identifier-then-braced, \<open>CT_WHILE_OF_DO\<close> gives paren-only,
  \<open>CT_INVARIANT\<close> gives optional-paren-only, and every kind that is none of these
  twenty-six gives none. The twenty-six kinds are different from each other.
\<close>

theorem get_token_pattern_class_cases:
  "(tok \<in> {CT_IF, CT_ELSEIF, CT_SWITCH, CT_FOR, CT_WHILE, CT_SYNCHRONIZED, CT_USING_STMT,
            CT_LOCK, CT_D_WITH, CT_D_VERSION_IF, CT_D_SCOPE_IF}
      \<longrightarrow> get_token_pattern_class tok = PBRACED)
   \<and> (tok = CT_ELSE \<longrightarrow> get_token_pattern_class tok = ELSE)
   \<and> (tok \<in> {CT_DO, CT_TRY, CT_FINALLY, CT_BODY, CT_UNITTEST, CT_UNSAFE, CT_VOLATILE, CT_GETSET}
      \<longrightarrow> get_token_pattern_class tok = BRACED)
   \<and> (tok \<in> {CT_CATCH, CT_D_VERSION, CT_DEBUG} \<longrightarrow> get_token_pattern_class tok = OPBRACED)
   \<and> (tok = CT_NAMESPACE \<longrightarrow> get_token_pattern_class tok = VBRACED)
   \<and> (tok = CT_WHILE_OF_DO \<longrightarrow> get_token_pattern_class tok = PAREN)
   \<and> (tok = CT_INVARIANT \<longrightarrow> get_token_pattern_class tok = OPPAREN)
   \<and> (tok \<notin> {CT_IF, CT_ELSEIF, CT_SWITCH, CT_FOR, CT_WHILE, CT_SYNCHRONIZED, CT_USING_STMT,
            CT_LOCK, CT_D_WITH, CT_D_VERSION_IF, CT_D_SCOPE_IF, CT_ELSE, CT_DO, CT_TRY,
            CT_FINALLY, CT_BODY, CT_UNITTEST, CT_UNSAFE, CT_VOLATILE, CT_GETSET, CT_CATCH,
            CT_D_VERSION, CT_DEBUG, CT_NAMESPACE, CT_WHILE_OF_DO, CT_INVARIANT}
      \<longrightarrow> get_token_pattern_class tok = NONE)
   \<and> distinct [CT_IF, CT_ELSEIF, CT_SWITCH, CT_FOR, CT_WHILE, CT_SYNCHRONIZED, CT_USING_STMT,
        CT_LOCK, CT_D_WITH, CT_D_VERSION_IF, CT_D_SCOPE_IF, CT_ELSE, CT_DO, CT_TRY, CT_FINALLY,
        CT_BODY, CT_UNITTEST, CT_UNSAFE, CT_VOLATILE, CT_GETSET, CT_CATCH, CT_D_VERSION,
        CT_DEBUG, CT_NAMESPACE, CT_WHILE_OF_DO, CT_INVARIANT]"
proof (intro conjI impI)
  show "distinct [CT_IF, CT_ELSEIF, CT_SWITCH, CT_FOR, CT_WHILE, CT_SYNCHRONIZED, CT_USING_STMT,
        CT_LOCK, CT_D_WITH, CT_D_VERSION_IF, CT_D_SCOPE_IF, CT_ELSE, CT_DO, CT_TRY, CT_FINALLY,
        CT_BODY, CT_UNITTEST, CT_UNSAFE, CT_VOLATILE, CT_GETSET, CT_CATCH, CT_D_VERSION,
        CT_DEBUG, CT_NAMESPACE, CT_WHILE_OF_DO, CT_INVARIANT]"
    by (rule closed_set_distinct)
qed (erule gtpc_pbraced gtpc_else gtpc_braced gtpc_opbraced gtpc_vbraced gtpc_paren
       gtpc_opparen gtpc_none)+

theorem get_token_pattern_class_cases_witness:
  "get_token_pattern_class CT_WHILE = PBRACED
   \<and> get_token_pattern_class CT_ELSE = ELSE
   \<and> get_token_pattern_class CT_TRY = BRACED
   \<and> get_token_pattern_class CT_CATCH = OPBRACED
   \<and> get_token_pattern_class CT_NAMESPACE = VBRACED
   \<and> get_token_pattern_class CT_WHILE_OF_DO = PAREN
   \<and> get_token_pattern_class CT_INVARIANT = OPPAREN
   \<and> get_token_pattern_class CT_WORD = NONE
   \<and> get_token_pattern_class (E_Token 100000) = NONE"
proof -
  have "get_token_pattern_class CT_WHILE = PBRACED"
    using get_token_pattern_class_cases [of CT_WHILE] by simp
  moreover have "get_token_pattern_class CT_ELSE = ELSE"
    using get_token_pattern_class_cases [of CT_ELSE] by simp
  moreover have "get_token_pattern_class CT_TRY = BRACED"
    using get_token_pattern_class_cases [of CT_TRY] by simp
  moreover have "get_token_pattern_class CT_CATCH = OPBRACED"
    using get_token_pattern_class_cases [of CT_CATCH] by simp
  moreover have "get_token_pattern_class CT_NAMESPACE = VBRACED"
    using get_token_pattern_class_cases [of CT_NAMESPACE] by simp
  moreover have "get_token_pattern_class CT_WHILE_OF_DO = PAREN"
    using get_token_pattern_class_cases [of CT_WHILE_OF_DO] by simp
  moreover have "get_token_pattern_class CT_INVARIANT = OPPAREN"
    using get_token_pattern_class_cases [of CT_INVARIANT] by simp
  moreover have "CT_WORD \<notin> {CT_IF, CT_ELSEIF, CT_SWITCH, CT_FOR, CT_WHILE, CT_SYNCHRONIZED,
            CT_USING_STMT, CT_LOCK, CT_D_WITH, CT_D_VERSION_IF, CT_D_SCOPE_IF, CT_ELSE, CT_DO,
            CT_TRY, CT_FINALLY, CT_BODY, CT_UNITTEST, CT_UNSAFE, CT_VOLATILE, CT_GETSET,
            CT_CATCH, CT_D_VERSION, CT_DEBUG, CT_NAMESPACE, CT_WHILE_OF_DO, CT_INVARIANT}"
    by (simp add: E_Token_defs)
  then have "get_token_pattern_class CT_WORD = NONE"
    using get_token_pattern_class_cases [of CT_WORD] by blast
  moreover have "E_Token 100000 \<notin> {CT_IF, CT_ELSEIF, CT_SWITCH, CT_FOR, CT_WHILE,
            CT_SYNCHRONIZED, CT_USING_STMT, CT_LOCK, CT_D_WITH, CT_D_VERSION_IF, CT_D_SCOPE_IF,
            CT_ELSE, CT_DO, CT_TRY, CT_FINALLY, CT_BODY, CT_UNITTEST, CT_UNSAFE, CT_VOLATILE,
            CT_GETSET, CT_CATCH, CT_D_VERSION, CT_DEBUG, CT_NAMESPACE, CT_WHILE_OF_DO,
            CT_INVARIANT}"
    by (simp add: E_Token_defs)
  then have "get_token_pattern_class (E_Token 100000) = NONE"
    using get_token_pattern_class_cases [of "E_Token 100000"] by blast
  ultimately show ?thesis by blast
qed

section \<open>The order of the table\<close>

declare bsearch_loop.simps [simp del]
declare kw_static_match_loop.simps [simp del]

lemma strcmp_eq_0_iff: "strcmp a b = 0 \<longleftrightarrow> a = b"
  by (induction a b rule: strcmp.induct) auto

lemma strcmp_refl: "strcmp a a = 0"
  by (simp add: strcmp_eq_0_iff)

lemma strcmp_swap: "strcmp b a = - strcmp a b"
  by (induction a b rule: strcmp.induct) (auto simp: not_less order_le_less)

lemma strcmp_range: "strcmp a b = -1 \<or> strcmp a b = 0 \<or> strcmp a b = 1"
  by (induction a b rule: strcmp.induct) auto

lemma strcmp_le_trans:
  "strcmp a b \<le> 0 \<Longrightarrow> strcmp b c \<le> 0 \<Longrightarrow> strcmp a c \<le> 0"
proof (induction a b arbitrary: c rule: strcmp.induct)
  case 1
  then show ?case by simp
next
  case (2 y ys)
  then show ?case by (cases c) auto
next
  case (3 x xs)
  then show ?case by simp
next
  case (4 x xs y ys)
  show ?case
  proof (cases c)
    case Nil
    with 4 show ?thesis by simp
  next
    case (Cons z zs)
    with 4 show ?thesis
      by (auto split: if_splits)
  qed
qed

lemma strcmp_antisym: "strcmp a b \<le> 0 \<Longrightarrow> strcmp b a \<le> 0 \<Longrightarrow> a = b"
  using strcmp_swap [of b a] by (simp add: strcmp_eq_0_iff [symmetric])

lemma kw_compare_transp: "transp (\<lambda>a b. kw_compare a b \<le> 0)"
  by (rule transpI) (auto simp: kw_compare_def intro: strcmp_le_trans)

lemma keywords_are_sorted_in_iff:
  "keywords_are_sorted_in tbl = Inr True \<longleftrightarrow> sorted_wrt (\<lambda>a b. kw_compare a b \<le> 0) tbl"
proof (induction tbl rule: keywords_are_sorted_in.induct)
  case (1 a b rest)
  have "(\<forall>x\<in>set (b # rest). kw_compare a x \<le> 0) \<longleftrightarrow> kw_compare a b \<le> 0"
    if "sorted_wrt (\<lambda>a b. kw_compare a b \<le> 0) (b # rest)"
    using that by (auto simp: kw_compare_def intro: strcmp_le_trans)
  with 1 show ?case
    by (auto simp: not_less)
qed simp_all

lemma keywords_are_sorted_in_cases:
  "keywords_are_sorted_in tbl = Inr True \<or> keywords_are_sorted_in tbl = Inl EX_SOFTWARE"
  by (induction tbl rule: keywords_are_sorted_in.induct) auto

lemma sorted_wrt_kw_iff_adjacent:
  "sorted_wrt (\<lambda>a b. kw_compare a b \<le> 0) tbl
     \<longleftrightarrow> (\<forall>i. Suc i < length tbl \<longrightarrow> strcmp (tag (tbl ! i)) (tag (tbl ! Suc i)) \<le> 0)"
  using sorted_wrt_iff_nth_Suc_transp [OF kw_compare_transp, of tbl]
  by (simp add: kw_compare_def)

lemma keywords_tbl_sorted: "sorted_wrt (\<lambda>a b. kw_compare a b \<le> 0) keywords_tbl"
proof -
  have "keywords_are_sorted_in keywords_tbl = Inr True"
    by code_simp
  then show ?thesis
    by (simp add: keywords_are_sorted_in_iff)
qed

lemma sorted_nth_le:
  assumes "sorted_wrt (\<lambda>a b. kw_compare a b \<le> 0) xs" and "i \<le> j" and "j < length xs"
  shows "strcmp (tag (xs ! i)) (tag (xs ! j)) \<le> 0"
proof (cases "i = j")
  case True
  then show ?thesis by (simp add: strcmp_refl)
next
  case False
  with assms have "kw_compare (xs ! i) (xs ! j) \<le> 0"
    by (intro sorted_wrt_nth_less [where P = "\<lambda>a b. kw_compare a b \<le> 0"]) auto
  then show ?thesis by (simp add: kw_compare_def)
qed

lemma sorted_run_contiguous:
  assumes "sorted_wrt (\<lambda>a b. kw_compare a b \<le> 0) xs"
    and "i \<le> k" and "k \<le> j" and "j < length xs" and "tag (xs ! i) = tag (xs ! j)"
  shows "tag (xs ! k) = tag (xs ! i)"
proof -
  have "strcmp (tag (xs ! i)) (tag (xs ! k)) \<le> 0"
    using assms by (intro sorted_nth_le) auto
  moreover have "strcmp (tag (xs ! k)) (tag (xs ! j)) \<le> 0"
    using assms by (intro sorted_nth_le) auto
  ultimately show ?thesis
    using assms(5) strcmp_antisym by metis
qed

text \<open>
  Claim C3. In \<open>keywords[]\<close> every row is at most its successor in the byte-wise order of
  \<open>strcmp\<close>, so the rows between two rows of one spelling have that spelling too;
  \<open>keywords_are_sorted\<close> returns true on it. On any table whose adjacent rows are all in
  order the loop returns true, and on any table with an adjacent pair in the wrong order
  it leaves the process with \<open>EX_SOFTWARE\<close>.
\<close>

theorem keywords_sorted_invariant:
  "(\<forall>i. Suc i < length keywords_tbl
        \<longrightarrow> strcmp (tag (keywords_tbl ! i)) (tag (keywords_tbl ! Suc i)) \<le> 0)
   \<and> (\<forall>i k j. i \<le> k \<and> k \<le> j \<and> j < length keywords_tbl
          \<and> tag (keywords_tbl ! i) = tag (keywords_tbl ! j)
        \<longrightarrow> tag (keywords_tbl ! k) = tag (keywords_tbl ! i))
   \<and> keywords_are_sorted = Inr True
   \<and> (\<forall>tbl. (\<forall>i. Suc i < length tbl \<longrightarrow> strcmp (tag (tbl ! i)) (tag (tbl ! Suc i)) \<le> 0)
        \<longrightarrow> keywords_are_sorted_in tbl = Inr True)
   \<and> (\<forall>tbl. (\<exists>i. Suc i < length tbl \<and> strcmp (tag (tbl ! i)) (tag (tbl ! Suc i)) > 0)
        \<longrightarrow> keywords_are_sorted_in tbl = Inl EX_SOFTWARE)"
proof (intro conjI allI impI)
  show "strcmp (tag (keywords_tbl ! i)) (tag (keywords_tbl ! Suc i)) \<le> 0"
    if "Suc i < length keywords_tbl" for i
    using that keywords_tbl_sorted by (intro sorted_nth_le) auto
  show "tag (keywords_tbl ! k) = tag (keywords_tbl ! i)"
    if "i \<le> k \<and> k \<le> j \<and> j < length keywords_tbl
          \<and> tag (keywords_tbl ! i) = tag (keywords_tbl ! j)" for i k j
    using that keywords_tbl_sorted sorted_run_contiguous [of keywords_tbl i k j] by blast
  show "keywords_are_sorted = Inr True"
    using keywords_tbl_sorted
    by (simp add: keywords_are_sorted_def keywords_are_sorted_in_iff)
  show "keywords_are_sorted_in tbl = Inr True"
    if "\<forall>i. Suc i < length tbl \<longrightarrow> strcmp (tag (tbl ! i)) (tag (tbl ! Suc i)) \<le> 0" for tbl
    using that by (simp add: keywords_are_sorted_in_iff sorted_wrt_kw_iff_adjacent)
  show "keywords_are_sorted_in tbl = Inl EX_SOFTWARE"
    if "\<exists>i. Suc i < length tbl \<and> strcmp (tag (tbl ! i)) (tag (tbl ! Suc i)) > 0" for tbl
  proof -
    from that have "\<not> sorted_wrt (\<lambda>a b. kw_compare a b \<le> 0) tbl"
      by (auto simp: sorted_wrt_kw_iff_adjacent not_le)
    then have "keywords_are_sorted_in tbl \<noteq> Inr True"
      by (simp add: keywords_are_sorted_in_iff)
    then show ?thesis
      using keywords_are_sorted_in_cases [of tbl] by blast
  qed
qed

theorem keywords_sorted_invariant_witness:
  "strcmp (tag (keywords_tbl ! 0)) (tag (keywords_tbl ! Suc 0)) \<le> 0
   \<and> tag (keywords_tbl ! 96) = tag (keywords_tbl ! 95)
   \<and> keywords_are_sorted_in (take 2 bad_tbl) = Inr True
   \<and> keywords_are_sorted_in bad_tbl = Inl EX_SOFTWARE"
proof -
  note inv = keywords_sorted_invariant
  have len: "length keywords_tbl = 303"
    by code_simp
  have "strcmp (tag (keywords_tbl ! 0)) (tag (keywords_tbl ! Suc 0)) \<le> 0"
    using inv [THEN conjunct1, rule_format, of 0] len by simp
  moreover have "tag (keywords_tbl ! 95) = tag (keywords_tbl ! 97)"
    by code_simp
  then have "tag (keywords_tbl ! 96) = tag (keywords_tbl ! 95)"
    using inv [THEN conjunct2, THEN conjunct1, rule_format, of 95 96 97] len by simp
  moreover have "\<forall>i. Suc i < length (take 2 bad_tbl)
       \<longrightarrow> strcmp (tag (take 2 bad_tbl ! i)) (tag (take 2 bad_tbl ! Suc i)) \<le> 0"
    by (simp add: bad_tbl_def)
  then have "keywords_are_sorted_in (take 2 bad_tbl) = Inr True"
    using inv [THEN conjunct2, THEN conjunct2, THEN conjunct2, THEN conjunct1, rule_format,
               of "take 2 bad_tbl"]
    by blast
  moreover have "Suc 1 < length bad_tbl \<and> strcmp (tag (bad_tbl ! 1)) (tag (bad_tbl ! Suc 1)) > 0"
    by (simp add: bad_tbl_def)
  then have "keywords_are_sorted_in bad_tbl = Inl EX_SOFTWARE"
    using inv [THEN conjunct2, THEN conjunct2, THEN conjunct2, THEN conjunct2, rule_format,
               of bad_tbl]
    by blast
  ultimately show ?thesis by blast
qed

section \<open>Rebuilding the rows of the language\<close>

lemma init_keywords_loop_view:
  assumes "language_count st + length (filter (\<lambda>t. lang_flags t AND fl \<noteq> 0) tbl)
             \<le> length (keyword_for_lang st)"
  shows "\<exists>st'. init_keywords_loop fl tbl st = Some st'
            \<and> kw_view st' = kw_view st @ filter (\<lambda>t. lang_flags t AND fl \<noteq> 0) tbl
            \<and> language_count st' = language_count st + length (filter (\<lambda>t. lang_flags t AND fl \<noteq> 0) tbl)
            \<and> length (keyword_for_lang st') = length (keyword_for_lang st)
            \<and> cpd_lang_flags st' = cpd_lang_flags st \<and> cpd_in_preproc st' = cpd_in_preproc st
            \<and> dkwm st' = dkwm st"
  using assms
proof (induction tbl arbitrary: st)
  case Nil
  then show ?case by simp
next
  case (Cons t rest)
  show ?case
  proof (cases "lang_flags t AND fl \<noteq> 0")
    case False
    with Cons show ?thesis by simp
  next
    case True
    let ?st1 = "st\<lparr>keyword_for_lang := (keyword_for_lang st)[language_count st := t],
                     language_count := language_count st + 1\<rparr>"
    from True Cons.prems have room: "language_count st < length (keyword_for_lang st)"
      by simp
    have view1: "kw_view ?st1 = kw_view st @ [t]"
      using room by (simp add: kw_view_def take_Suc_conv_app_nth)
    have "language_count ?st1 + length (filter (\<lambda>t. lang_flags t AND fl \<noteq> 0) rest)
            \<le> length (keyword_for_lang ?st1)"
      using True Cons.prems by simp
    from Cons.IH [OF this] view1 True room show ?thesis
      by auto
  qed
qed

lemma init_keywords_loop_overflow:
  assumes "length (keyword_for_lang st)
             < language_count st + length (filter (\<lambda>t. lang_flags t AND fl \<noteq> 0) tbl)"
    and "language_count st \<le> length (keyword_for_lang st)"
  shows "init_keywords_loop fl tbl st = None"
  using assms
proof (induction tbl arbitrary: st)
  case Nil
  then show ?case by simp
next
  case (Cons t rest)
  show ?case
  proof (cases "lang_flags t AND fl \<noteq> 0")
    case False
    with Cons show ?thesis by simp
  next
    case True
    show ?thesis
    proof (cases "language_count st < length (keyword_for_lang st)")
      case False
      with True show ?thesis by simp
    next
      case room: True
      let ?st1 = "st\<lparr>keyword_for_lang := (keyword_for_lang st)[language_count st := t],
                     language_count := language_count st + 1\<rparr>"
      have "init_keywords_loop fl rest ?st1 = None"
        using True Cons.prems room by (intro Cons.IH) auto
      with True room show ?thesis by simp
    qed
  qed
qed

lemma init_keywords_for_language_Some:
  assumes "length (filter (\<lambda>t. lang_flags t AND cpd_lang_flags st \<noteq> 0) keywords_tbl)
             \<le> length (keyword_for_lang st)"
  shows "\<exists>st'. init_keywords_for_language st = Some st'
            \<and> kw_view st' = filter (\<lambda>t. lang_flags t AND cpd_lang_flags st \<noteq> 0) keywords_tbl
            \<and> language_count st' = length (kw_view st')
            \<and> length (keyword_for_lang st') = length (keyword_for_lang st)
            \<and> cpd_lang_flags st' = cpd_lang_flags st \<and> cpd_in_preproc st' = cpd_in_preproc st
            \<and> dkwm st' = dkwm st"
proof -
  let ?st0 = "st\<lparr>language_count := 0\<rparr>"
  have "language_count ?st0
          + length (filter (\<lambda>t. lang_flags t AND cpd_lang_flags st \<noteq> 0) keywords_tbl)
          \<le> length (keyword_for_lang ?st0)"
    using assms by simp
  from init_keywords_loop_view [OF this] obtain st' where
    st': "init_keywords_loop (cpd_lang_flags st) keywords_tbl ?st0 = Some st'"
      "kw_view st' = kw_view ?st0 @ filter (\<lambda>t. lang_flags t AND cpd_lang_flags st \<noteq> 0) keywords_tbl"
      "language_count st' = language_count ?st0
         + length (filter (\<lambda>t. lang_flags t AND cpd_lang_flags st \<noteq> 0) keywords_tbl)"
      "length (keyword_for_lang st') = length (keyword_for_lang ?st0)"
      "cpd_lang_flags st' = cpd_lang_flags ?st0" "cpd_in_preproc st' = cpd_in_preproc ?st0"
      "dkwm st' = dkwm ?st0"
    by blast
  have "kw_view ?st0 = []"
    by (simp add: kw_view_def)
  with st' show ?thesis
    by (simp add: init_keywords_for_language_def)
qed

lemma init_keywords_for_language_inv:
  assumes "init_keywords_for_language st = Some st'"
    and "length (filter (\<lambda>t. lang_flags t AND cpd_lang_flags st \<noteq> 0) keywords_tbl)
             \<le> length (keyword_for_lang st)"
  shows "kw_inv st'"
proof -
  from init_keywords_for_language_Some [OF assms(2)] assms(1)
  have view: "kw_view st' = filter (\<lambda>t. lang_flags t AND cpd_lang_flags st \<noteq> 0) keywords_tbl"
    and cnt: "language_count st' = length (kw_view st')"
    by auto
  have "sorted_wrt (\<lambda>a b. kw_compare a b \<le> 0) (kw_view st')"
    unfolding view by (intro sorted_wrt_filter keywords_tbl_sorted)
  moreover have "language_count st' \<le> length (keyword_for_lang st')"
    using cnt by (simp add: kw_view_def)
  ultimately show ?thesis
    by (simp add: kw_inv_def)
qed

lemma start_state_inv: "kw_inv (start_state cap)"
  by (simp add: kw_inv_def kw_view_def start_state_def)

lemma all_rows_selected:
  "length (filter (\<lambda>t. lang_flags t AND LANG_ALL \<noteq> 0) keywords_tbl) = 303"
  by code_simp

text \<open>
  Claim C4, as stated for every language flag set, fails when the selected rows do not
  fit into \<open>keyword_for_lang\<close>: the array has a fixed capacity and the loop stores without
  a bound check. With the flags of all languages every one of the 303 rows of
  \<open>keywords[]\<close> is selected; in an array of 300 rows the 301st is written past the end,
  and no filtered view results.
\<close>

theorem init_keywords_for_language_overflow_counterexample:
  "length (filter (\<lambda>t. lang_flags t AND LANG_ALL \<noteq> 0) keywords_tbl) = 303
   \<and> length (keyword_for_lang ((start_state 300)\<lparr>cpd_lang_flags := LANG_ALL\<rparr>)) = 300
   \<and> init_keywords_for_language ((start_state 300)\<lparr>cpd_lang_flags := LANG_ALL\<rparr>) = None"
proof -
  let ?st = "(start_state 300)\<lparr>cpd_lang_flags := LANG_ALL, language_count := 0\<rparr>"
  have "init_keywords_loop LANG_ALL keywords_tbl ?st = None"
    using all_rows_selected
    by (intro init_keywords_loop_overflow) (simp_all add: start_state_def)
  then show ?thesis
    using all_rows_selected
    by (simp add: init_keywords_for_language_def start_state_def)
qed

text \<open>
  Claim C4, amended. Whatever rows \<open>keyword_for_lang\<close> held before and however many were
  in use: when the rows of \<open>keywords[]\<close> whose flags intersect \<open>cpd.lang_flags\<close> fit into
  the array, then after \<open>init_keywords_for_language\<close> the rows in use are exactly these
  rows, in the order of the table; the flags, the preprocessor context and the dynamic
  keywords are untouched. A second call, with the same or with other flags whose rows
  fit, gives the rows of those flags and nothing of the first call.
\<close>

theorem init_keywords_for_language_rebuilds:
  assumes "length (filter (\<lambda>t. lang_flags t AND cpd_lang_flags st \<noteq> 0) keywords_tbl)
             \<le> length (keyword_for_lang st)"
  shows "\<exists>st'. init_keywords_for_language st = Some st'
            \<and> kw_view st' = filter (\<lambda>t. lang_flags t AND cpd_lang_flags st \<noteq> 0) keywords_tbl
            \<and> cpd_lang_flags st' = cpd_lang_flags st \<and> cpd_in_preproc st' = cpd_in_preproc st
            \<and> dkwm st' = dkwm st
            \<and> (\<forall>flags2.
                  length (filter (\<lambda>t. lang_flags t AND flags2 \<noteq> 0) keywords_tbl)
                    \<le> length (keyword_for_lang st)
                  \<longrightarrow> (\<exists>st''. init_keywords_for_language (st'\<lparr>cpd_lang_flags := flags2\<rparr>) = Some st''
                         \<and> kw_view st'' = filter (\<lambda>t. lang_flags t AND flags2 \<noteq> 0) keywords_tbl))"
proof -
  from init_keywords_for_language_Some [OF assms] obtain st' where
    st': "init_keywords_for_language st = Some st'"
      "kw_view st' = filter (\<lambda>t. lang_flags t AND cpd_lang_flags st \<noteq> 0) keywords_tbl"
      "length (keyword_for_lang st') = length (keyword_for_lang st)"
      "cpd_lang_flags st' = cpd_lang_flags st" "cpd_in_preproc st' = cpd_in_preproc st"
      "dkwm st' = dkwm st"
    by blast
  have "\<exists>st''. init_keywords_for_language (st'\<lparr>cpd_lang_flags := flags2\<rparr>) = Some st''
           \<and> kw_view st'' = filter (\<lambda>t. lang_flags t AND flags2 \<noteq> 0) keywords_tbl"
    if "length (filter (\<lambda>t. lang_flags t AND flags2 \<noteq> 0) keywords_tbl)
          \<le> length (keyword_for_lang st)" for flags2
    using init_keywords_for_language_Some [of "st'\<lparr>cpd_lang_flags := flags2\<rparr>"] that st'(3)
    by auto
  with st' show ?thesis
    by blast
qed

theorem init_keywords_for_language_rebuilds_witness:
  "\<exists>st'. init_keywords_for_language ((start_state 300)\<lparr>cpd_lang_flags := LANG_C\<rparr>) = Some st'
      \<and> kw_view st' = filter (\<lambda>t. lang_flags t AND LANG_C \<noteq> 0) keywords_tbl
      \<and> (\<exists>st''. init_keywords_for_language (st'\<lparr>cpd_lang_flags := LANG_JAVA\<rparr>) = Some st''
             \<and> kw_view st'' = filter (\<lambda>t. lang_flags t AND LANG_JAVA \<noteq> 0) keywords_tbl)"
proof -
  have c: "length (filter (\<lambda>t. lang_flags t AND LANG_C \<noteq> 0) keywords_tbl) \<le> 300"
    by code_simp
  have j: "length (filter (\<lambda>t. lang_flags t AND LANG_JAVA \<noteq> 0) keywords_tbl) \<le> 300"
    by code_simp
  show ?thesis
    using init_keywords_for_language_rebuilds [of "(start_state 300)\<lparr>cpd_lang_flags := LANG_C\<rparr>"]
      c j
    by (simp add: start_state_def) blast
qed

section \<open>Searching the rows of the language\<close>

lemma view_nth_le:
  assumes "kw_inv st" and "i \<le> j" and "j < language_count st"
  shows "strcmp (tag (keyword_for_lang st ! i)) (tag (keyword_for_lang st ! j)) \<le> 0"
proof -
  from assms have "j < length (kw_view st)"
    by (simp add: kw_inv_def kw_view_def)
  moreover from assms have "sorted_wrt (\<lambda>a b. kw_compare a b \<le> 0) (kw_view st)"
    by (simp add: kw_inv_def)
  ultimately have "strcmp (tag (kw_view st ! i)) (tag (kw_view st ! j)) \<le> 0"
    using assms(2) by (intro sorted_nth_le) auto
  with assms show ?thesis
    by (simp add: kw_view_def)
qed

lemma bsearch_loop_sound:
  "bsearch_loop key base compar l u = Some p \<Longrightarrow> l \<le> p \<and> p < u \<and> compar key (base ! p) = 0"
proof (induction key base compar l u rule: bsearch_loop.induct)
  case (1 key base compar l u)
  show ?case
  proof (cases "l < u")
    case False
    with "1.prems" show ?thesis
      by (simp add: bsearch_loop.simps [of key base compar l u])
  next
    case True
    let ?idx = "(l + u) div 2"
    from True have bounds: "l \<le> ?idx" "?idx < u" by auto
    consider (lt) "compar key (base ! ?idx) < 0"
      | (gt) "\<not> compar key (base ! ?idx) < 0" "compar key (base ! ?idx) > 0"
      | (eq) "compar key (base ! ?idx) = 0"
      by linarith
    then show ?thesis
    proof cases
      case lt
      with True "1.prems" have "bsearch_loop key base compar l ?idx = Some p"
        by (simp add: bsearch_loop.simps [of key base compar l u] Let_def)
      from "1.IH"(1) [OF True refl refl lt this] bounds show ?thesis by simp
    next
      case gt
      with True "1.prems" have "bsearch_loop key base compar (?idx + 1) u = Some p"
        by (simp add: bsearch_loop.simps [of key base compar l u] Let_def)
      from "1.IH"(2) [OF True refl refl gt this] bounds show ?thesis by simp
    next
      case eq
      with True "1.prems" have "p = ?idx"
        by (simp add: bsearch_loop.simps [of key base compar l u] Let_def)
      with eq bounds show ?thesis by simp
    qed
  qed
qed

lemma bsearch_loop_complete:
  assumes "kw_inv st" and "u \<le> language_count st"
    and "l \<le> i" and "i < u" and "tag (keyword_for_lang st ! i) = tag key"
    and "compar = kw_compare" and "base = keyword_for_lang st"
  shows "bsearch_loop key base compar l u \<noteq> None"
  using assms
proof (induction key base compar l u rule: bsearch_loop.induct)
  case (1 key base compar l u)
  let ?idx = "(l + u) div 2"
  from "1.prems" have lu: "l < u" by simp
  then have bounds: "l \<le> ?idx" "?idx < u" by auto
  have cmp: "compar key (base ! ?idx) = strcmp (tag key) (tag (keyword_for_lang st ! ?idx))"
    using "1.prems" by (simp add: kw_compare_def)
  consider (lt) "compar key (base ! ?idx) < 0"
    | (gt) "\<not> compar key (base ! ?idx) < 0" "compar key (base ! ?idx) > 0"
    | (eq) "compar key (base ! ?idx) = 0"
    by linarith
  then show ?case
  proof cases
    case lt
    have "i < ?idx"
    proof (rule ccontr)
      assume "\<not> i < ?idx"
      then have "strcmp (tag (keyword_for_lang st ! ?idx)) (tag (keyword_for_lang st ! i)) \<le> 0"
        using "1.prems" by (intro view_nth_le) auto
      then have "strcmp (tag key) (tag (keyword_for_lang st ! ?idx)) \<ge> 0"
        using "1.prems"(5) strcmp_swap [of "tag key" "tag (keyword_for_lang st ! ?idx)"] by simp
      with lt cmp show False by simp
    qed
    with "1.prems" bounds lu
    have "bsearch_loop key base compar l ?idx \<noteq> None"
      by (intro "1.IH"(1) [OF lu refl refl lt]) auto
    with lt lu show ?thesis
      by (simp add: bsearch_loop.simps [of key base compar l u] Let_def)
  next
    case gt
    have "?idx < i"
    proof (rule ccontr)
      assume "\<not> ?idx < i"
      then have "strcmp (tag (keyword_for_lang st ! i)) (tag (keyword_for_lang st ! ?idx)) \<le> 0"
        using "1.prems" bounds by (intro view_nth_le) auto
      with gt cmp "1.prems"(5) show False by simp
    qed
    with "1.prems" bounds lu
    have "bsearch_loop key base compar (?idx + 1) u \<noteq> None"
      by (intro "1.IH"(2) [OF lu refl refl gt]) auto
    with gt lu show ?thesis
      by (simp add: bsearch_loop.simps [of key base compar l u] Let_def)
  next
    case eq
    with lu show ?thesis
      by (simp add: bsearch_loop.simps [of key base compar l u] Let_def)
  qed
qed

lemma bsearch_found:
  assumes "bsearch key base nmemb kw_compare = Some p"
  shows "p < nmemb \<and> tag (base ! p) = tag key"
  using bsearch_loop_sound [of key base kw_compare 0 nmemb p] assms
  by (simp add: bsearch_def kw_compare_def strcmp_eq_0_iff)

lemma bsearch_finds:
  assumes "kw_inv st" and "i < language_count st" and "tag (keyword_for_lang st ! i) = tag key"
  shows "\<exists>p. bsearch key (keyword_for_lang st) (language_count st) kw_compare = Some p"
  using bsearch_loop_complete [of st "language_count st" 0 i key kw_compare "keyword_for_lang st"]
    assms
  by (auto simp: bsearch_def)

lemma kw_static_first_le: "kw_static_first arr p \<le> p"
  by (induction arr p rule: kw_static_first.induct) auto

lemma kw_static_first_tag: "tag (arr ! kw_static_first arr p) = tag (arr ! p)"
  by (induction arr p rule: kw_static_first.induct) (auto simp: strcmp_eq_0_iff)

lemma kw_static_first_none_before:
  assumes "kw_inv st" and "p < language_count st" and "j < kw_static_first (keyword_for_lang st) p"
  shows "tag (keyword_for_lang st ! j) \<noteq> tag (keyword_for_lang st ! p)"
  using assms(2,3)
proof (induction p)
  case 0
  then show ?case by simp
next
  case (Suc p)
  let ?arr = "keyword_for_lang st"
  show ?case
  proof (cases "strcmp (tag (?arr ! p)) (tag (?arr ! Suc p)) = 0")
    case True
    with Suc show ?thesis
      by (simp add: strcmp_eq_0_iff)
  next
    case False
    with Suc.prems have j: "j \<le> p" by simp
    show ?thesis
    proof
      assume eq: "tag (?arr ! j) = tag (?arr ! Suc p)"
      have "strcmp (tag (?arr ! j)) (tag (?arr ! p)) \<le> 0"
        using assms(1) j Suc.prems by (intro view_nth_le) auto
      moreover have "strcmp (tag (?arr ! p)) (tag (?arr ! Suc p)) \<le> 0"
        using assms(1) Suc.prems by (intro view_nth_le) auto
      ultimately have "tag (?arr ! p) = tag (?arr ! Suc p)"
        using eq strcmp_antisym by metis
      with False show False
        by (simp add: strcmp_eq_0_iff)
    qed
  qed
qed

lemma kw_static_match_loop_unfold:
  "kw_static_match_loop st tg lf in_pp iter =
     (if iter < language_count st then
        (if row_test st tg lf in_pp iter then Some iter
         else kw_static_match_loop st tg lf in_pp (iter + 1))
      else None)"
  by (subst kw_static_match_loop.simps) (simp add: row_test_def Let_def)

lemma kw_static_match_loop_first:
  assumes "iter \<le> i" and "i < language_count st" and "row_test st tg lf in_pp i"
    and "\<forall>j. iter \<le> j \<and> j < i \<longrightarrow> \<not> row_test st tg lf in_pp j"
  shows "kw_static_match_loop st tg lf in_pp iter = Some i"
  using assms
proof (induction st tg lf in_pp iter rule: kw_static_match_loop.induct)
  case (1 st tg lf in_pp iter)
  show ?case
  proof (cases "iter = i")
    case True
    with "1.prems" show ?thesis
      by (subst kw_static_match_loop_unfold) simp
  next
    case False
    with "1.prems" have no: "\<not> row_test st tg lf in_pp iter" and lt: "iter < language_count st"
      by auto
    have "kw_static_match_loop st tg lf in_pp (iter + 1) = Some i"
    proof (rule "1.IH" [OF lt refl])
      show "\<not> (strcmp (tag (keyword_for_lang st ! iter)) (tag (keyword_for_lang st ! tg)) = 0
              \<and> language_is_set st (lang_flags (keyword_for_lang st ! iter))
              \<and> lf AND lang_flags (keyword_for_lang st ! iter) \<noteq> 0
              \<and> in_pp = (lang_flags (keyword_for_lang st ! iter) AND FLAG_PP \<noteq> 0))"
        using no by (simp add: row_test_def)
    qed (use "1.prems" False in auto)
    with no lt show ?thesis
      by (subst kw_static_match_loop_unfold) simp
  qed
qed

lemma kw_static_match_loop_none:
  assumes "\<forall>j. iter \<le> j \<and> j < language_count st \<longrightarrow> \<not> row_test st tg lf in_pp j"
  shows "kw_static_match_loop st tg lf in_pp iter = None"
  using assms
proof (induction st tg lf in_pp iter rule: kw_static_match_loop.induct)
  case (1 st tg lf in_pp iter)
  show ?case
  proof (cases "iter < language_count st")
    case False
    then show ?thesis
      by (subst kw_static_match_loop_unfold) simp
  next
    case lt: True
    with "1.prems" have no: "\<not> row_test st tg lf in_pp iter"
      by auto
    have "kw_static_match_loop st tg lf in_pp (iter + 1) = None"
    proof (rule "1.IH" [OF lt refl])
      show "\<not> (strcmp (tag (keyword_for_lang st ! iter)) (tag (keyword_for_lang st ! tg)) = 0
              \<and> language_is_set st (lang_flags (keyword_for_lang st ! iter))
              \<and> lf AND lang_flags (keyword_for_lang st ! iter) \<noteq> 0
              \<and> in_pp = (lang_flags (keyword_for_lang st ! iter) AND FLAG_PP \<noteq> 0))"
        using no by (simp add: row_test_def)
    qed (use "1.prems" in auto)
    with no lt show ?thesis
      by (subst kw_static_match_loop_unfold) simp
  qed
qed

lemma kw_static_match_loop_Some:
  "kw_static_match_loop st tg lf in_pp iter = Some r
     \<Longrightarrow> iter \<le> r \<and> r < language_count st \<and> row_test st tg lf in_pp r"
proof (induction st tg lf in_pp iter rule: kw_static_match_loop.induct)
  case (1 st tg lf in_pp iter)
  show ?case
  proof (cases "iter < language_count st \<and> \<not> row_test st tg lf in_pp iter")
    case False
    with "1.prems" show ?thesis
      by (subst (asm) kw_static_match_loop_unfold) (auto split: if_splits)
  next
    case True
    with "1.prems" have "kw_static_match_loop st tg lf in_pp (iter + 1) = Some r"
      by (subst (asm) kw_static_match_loop_unfold) simp
    moreover have "\<not> (strcmp (tag (keyword_for_lang st ! iter)) (tag (keyword_for_lang st ! tg)) = 0
              \<and> language_is_set st (lang_flags (keyword_for_lang st ! iter))
              \<and> lf AND lang_flags (keyword_for_lang st ! iter) \<noteq> 0
              \<and> in_pp = (lang_flags (keyword_for_lang st ! iter) AND FLAG_PP \<noteq> 0))"
      using True by (simp add: row_test_def)
    ultimately have "iter + 1 \<le> r \<and> r < language_count st \<and> row_test st tg lf in_pp r"
      using True by (intro "1.IH" [OF _ refl]) auto
    then show ?thesis by simp
  qed
qed

lemma row_test_selected:
  assumes "tag (keyword_for_lang st ! p) = key"
  shows "row_test st p (cpd_lang_flags st)
           (cpd_in_preproc st \<noteq> CT_NONE \<and> cpd_in_preproc st \<noteq> CT_PP_DEFINE) j
         \<longleftrightarrow> row_selected st key (keyword_for_lang st ! j)"
  using assms
  by (auto simp: row_test_def row_selected_def language_is_set_def strcmp_eq_0_iff and.commute)

lemma primed_fields [simp]:
  "keyword_for_lang (primed st key) = keyword_for_lang st"
  "language_count (primed st key) = language_count st"
  "cpd_lang_flags (primed st key) = cpd_lang_flags st"
  "dkwm (primed st key) = dkwm st"
  by (simp_all add: primed_def)

lemma primed_inv: "kw_inv (primed st key) = kw_inv st"
  by (simp add: kw_inv_def kw_view_def)

lemma find_keyword_type_unfold:
  assumes "0 < len" and "dkwm st (take len word) = None"
  shows "find_keyword_type st word len =
     (case bsearch \<lparr>tag = c_str (take len word), type = CT_NONE, lang_flags = 0\<rparr>
             (keyword_for_lang st) (language_count st) kw_compare of
        None \<Rightarrow> (CT_WORD, st)
      | Some p \<Rightarrow>
          (case kw_static_match (primed st (c_str (take len word))) p (cpd_lang_flags st) of
             None \<Rightarrow> (CT_WORD, primed st (c_str (take len word)))
           | Some r \<Rightarrow> (type (keyword_for_lang st ! r), primed st (c_str (take len word)))))"
proof (cases "bsearch \<lparr>tag = c_str (take len word), type = CT_NONE, lang_flags = 0\<rparr>
             (keyword_for_lang st) (language_count st) kw_compare")
  case None
  with assms show ?thesis
    by (simp add: find_keyword_type_def)
next
  case (Some p)
  from bsearch_found [OF Some] have "tag (keyword_for_lang st ! p) = c_str (take len word)"
    by simp
  then have "(if strcmp (tag (keyword_for_lang st ! p)) ''__pragma'' = 0
                 \<or> strcmp (tag (keyword_for_lang st ! p)) ''_Pragma'' = 0
              then st\<lparr>cpd_in_preproc := CT_PREPROC\<rparr> else st) = primed st (c_str (take len word))"
    by (simp only: strcmp_eq_0_iff primed_def)
  with assms Some show ?thesis
    by (simp add: find_keyword_type_def Let_def del: strcmp.simps split: option.splits)
qed

lemma find_keyword_type_found:
  assumes inv: "kw_inv st" and len: "0 < len" and dk: "dkwm st (take len word) = None"
    and i: "i < language_count st"
    and sel: "row_selected (primed st (c_str (take len word))) (c_str (take len word))
                (keyword_for_lang st ! i)"
    and first: "\<forall>j<i. \<not> row_selected (primed st (c_str (take len word))) (c_str (take len word))
                (keyword_for_lang st ! j)"
  shows "find_keyword_type st word len
           = (type (keyword_for_lang st ! i), primed st (c_str (take len word)))"
proof -
  let ?key = "c_str (take len word)"
  let ?st' = "primed st ?key"
  let ?arr = "keyword_for_lang st"
  let ?in_pp = "cpd_in_preproc ?st' \<noteq> CT_NONE \<and> cpd_in_preproc ?st' \<noteq> CT_PP_DEFINE"
  from sel have tag_i: "tag (?arr ! i) = ?key"
    by (simp add: row_selected_def)
  from bsearch_finds [OF inv i, of "\<lparr>tag = ?key, type = CT_NONE, lang_flags = 0\<rparr>"] tag_i
  obtain p where p: "bsearch \<lparr>tag = ?key, type = CT_NONE, lang_flags = 0\<rparr> ?arr
                       (language_count st) kw_compare = Some p"
    by auto
  from bsearch_found [OF p] have p_lt: "p < language_count st" and tag_p: "tag (?arr ! p) = ?key"
    by simp_all
  let ?f = "kw_static_first ?arr p"
  have f_le_i: "?f \<le> i"
  proof (rule ccontr)
    assume "\<not> ?f \<le> i"
    then have "tag (?arr ! i) \<noteq> tag (?arr ! p)"
      using kw_static_first_none_before [OF inv p_lt, of i] by simp
    with tag_i tag_p show False by simp
  qed
  have test: "row_test ?st' p (cpd_lang_flags st) ?in_pp j \<longleftrightarrow> row_selected ?st' ?key (?arr ! j)"
    for j
    using row_test_selected [of ?st' p ?key j] tag_p by simp
  have "kw_static_match_loop ?st' p (cpd_lang_flags st) ?in_pp ?f = Some i"
    using f_le_i i sel first
    by (intro kw_static_match_loop_first) (simp_all add: test)
  then have "kw_static_match ?st' p (cpd_lang_flags st) = Some i"
    by (simp add: kw_static_match_def Let_def)
  with p show ?thesis
    by (simp add: find_keyword_type_unfold [OF len dk])
qed

lemma find_keyword_type_not_found:
  assumes len: "0 < len" and dk: "dkwm st (take len word) = None"
    and none: "\<forall>j<language_count st.
                 \<not> row_selected (primed st (c_str (take len word))) (c_str (take len word))
                     (keyword_for_lang st ! j)"
  shows "fst (find_keyword_type st word len) = CT_WORD"
proof (cases "bsearch \<lparr>tag = c_str (take len word), type = CT_NONE, lang_flags = 0\<rparr>
             (keyword_for_lang st) (language_count st) kw_compare")
  case None
  then show ?thesis
    by (simp add: find_keyword_type_unfold [OF len dk])
next
  case (Some p)
  let ?key = "c_str (take len word)"
  let ?st' = "primed st ?key"
  let ?in_pp = "cpd_in_preproc ?st' \<noteq> CT_NONE \<and> cpd_in_preproc ?st' \<noteq> CT_PP_DEFINE"
  from bsearch_found [OF Some] have tag_p: "tag (keyword_for_lang st ! p) = ?key"
    by simp
  have test: "row_test ?st' p (cpd_lang_flags st) ?in_pp j
                \<longleftrightarrow> row_selected ?st' ?key (keyword_for_lang st ! j)" for j
    using row_test_selected [of ?st' p ?key j] tag_p by simp
  have "kw_static_match_loop ?st' p (cpd_lang_flags st) ?in_pp
          (kw_static_first (keyword_for_lang st) p) = None"
    using none by (intro kw_static_match_loop_none) (simp add: test)
  then have "kw_static_match ?st' p (cpd_lang_flags st) = None"
    by (simp add: kw_static_match_def Let_def)
  with Some show ?thesis
    by (simp add: find_keyword_type_unfold [OF len dk])
qed

lemma find_keyword_type_state:
  "snd (find_keyword_type st word len) =
     (if 0 < len \<and> dkwm st (take len word) = None
         \<and> (\<exists>p. bsearch \<lparr>tag = c_str (take len word), type = CT_NONE, lang_flags = 0\<rparr>
                   (keyword_for_lang st) (language_count st) kw_compare = Some p)
      then primed st (c_str (take len word)) else st)"
proof (cases "0 < len \<and> dkwm st (take len word) = None")
  case False
  then show ?thesis
    by (auto simp: find_keyword_type_def)
next
  case True
  then show ?thesis
    by (simp add: find_keyword_type_unfold split: option.splits)
qed

section \<open>The state after selecting C\<close>

lemma lang_c_rows_length: "length lang_c_rows = 95"
  by code_simp

lemma lang_c_state_facts:
  "init_keywords_for_language ((start_state 300)\<lparr>cpd_lang_flags := LANG_C\<rparr>) = Some lang_c_state"
  "kw_inv lang_c_state"
  "kw_view lang_c_state = lang_c_rows"
  "language_count lang_c_state = 95"
  "cpd_lang_flags lang_c_state = LANG_C"
  "cpd_in_preproc lang_c_state = CT_NONE"
  "dkwm lang_c_state = Map.empty"
proof -
  let ?st = "(start_state 300)\<lparr>cpd_lang_flags := LANG_C\<rparr>"
  have fits: "length (filter (\<lambda>t. lang_flags t AND cpd_lang_flags ?st \<noteq> 0) keywords_tbl)
                \<le> length (keyword_for_lang ?st)"
    using lang_c_rows_length by (simp add: lang_c_rows_def start_state_def)
  from init_keywords_for_language_Some [OF fits] obtain st' where
    st': "init_keywords_for_language ?st = Some st'"
      "kw_view st' = filter (\<lambda>t. lang_flags t AND cpd_lang_flags ?st \<noteq> 0) keywords_tbl"
      "language_count st' = length (kw_view st')"
      "cpd_lang_flags st' = cpd_lang_flags ?st" "cpd_in_preproc st' = cpd_in_preproc ?st"
      "dkwm st' = dkwm ?st"
    by blast
  then have eq: "lang_c_state = st'"
    by (simp add: lang_c_state_def)
  show "init_keywords_for_language ?st = Some lang_c_state"
    using st'(1) eq by simp
  show "kw_inv lang_c_state"
    using init_keywords_for_language_inv [OF st'(1) fits] eq by simp
  show "kw_view lang_c_state = lang_c_rows"
    using st'(2) eq by (simp add: lang_c_rows_def)
  show "language_count lang_c_state = 95"
    using st'(2,3) eq lang_c_rows_length by (simp add: lang_c_rows_def)
  show "cpd_lang_flags lang_c_state = LANG_C"
    using st'(4) eq by simp
  show "cpd_in_preproc lang_c_state = CT_NONE"
    using st'(5) eq by (simp add: start_state_def)
  show "dkwm lang_c_state = Map.empty"
    using st'(6) eq by (simp add: start_state_def)
qed

lemma lang_c_state_nth:
  "j < 95 \<Longrightarrow> keyword_for_lang lang_c_state ! j = lang_c_rows ! j"
  using lang_c_state_facts(3,4) nth_take [of j "language_count lang_c_state" "keyword_for_lang lang_c_state"]
  by (simp add: kw_view_def)

lemma list_all_take_nth:
  assumes "list_all P (take n xs)" and "n \<le> length xs" and "j < n"
  shows "P (xs ! j)"
  using assms by (auto simp: list_all_length)

lemma lang_c_else_rows:
  "map (\<lambda>row. (tag row, type row, lang_flags row)) (take 2 (drop 52 lang_c_rows))
     = [(''else'', CT_ELSE, LANG_ALL), (''else'', CT_PP_ELSE, LANG_ALL OR FLAG_PP)]
   \<and> list_all (\<lambda>row. tag row \<noteq> ''else'') (take 52 lang_c_rows)"
  by code_simp

lemma lang_c_fallback_rows:
  "list_all (\<lambda>row. tag row \<noteq> ''zzzzznotaword''
                 \<and> (tag row = ''define'' \<longrightarrow> lang_flags row AND FLAG_PP \<noteq> 0)) lang_c_rows"
  by code_simp

section \<open>The kind of a word\<close>

text \<open>
  Claim C1. Let the word have a nonzero length and not be a dynamic keyword, and let row
  \<open>i\<close> of the rows in use be the first, in the order of the table, that has the
  spelling of the word, flags that intersect the active language flags, and the
  preprocessor-only flag exactly when the preprocessor context is inside a directive other
  than \<open>#define\<close>. Then \<open>find_keyword_type\<close> returns the kind of row \<open>i\<close>. The rows of one
  spelling are contiguous, because the rows in use are sorted (\<open>kw_inv\<close>). The context
  is the one in force when the rows are tested: \<open>CT_PREPROC\<close> for the two pragma
  spellings, which set it before the test (claim C5), and \<open>cpd.in_preproc\<close> as it was
  at the call for every other word.
\<close>

theorem find_keyword_type_first_match:
  fixes st :: kw_state and word :: string and len i :: nat
  defines "key \<equiv> c_str (take len word)"
  defines "ctx \<equiv> (if key = ''__pragma'' \<or> key = ''_Pragma'' then CT_PREPROC else cpd_in_preproc st)"
  defines "agrees \<equiv> \<lambda>row. lang_flags row AND cpd_lang_flags st \<noteq> 0
                        \<and> ((lang_flags row AND FLAG_PP \<noteq> 0) = (ctx \<noteq> CT_NONE \<and> ctx \<noteq> CT_PP_DEFINE))"
  assumes "kw_inv st" and "0 < len" and "dkwm st (take len word) = None"
    and "i < language_count st"
    and "tag (keyword_for_lang st ! i) = key"
    and "agrees (keyword_for_lang st ! i)"
    and "\<forall>j<i. tag (keyword_for_lang st ! j) = key \<longrightarrow> \<not> agrees (keyword_for_lang st ! j)"
  shows "fst (find_keyword_type st word len) = type (keyword_for_lang st ! i)"
proof -
  have ctx: "cpd_in_preproc (primed st key) = ctx"
    by (simp add: primed_def ctx_def)
  have sel: "row_selected (primed st key) key row \<longleftrightarrow> tag row = key \<and> agrees row" for row
    by (auto simp: row_selected_def agrees_def ctx)
  have "find_keyword_type st word len = (type (keyword_for_lang st ! i), primed st key)"
    unfolding key_def
    using assms(4-10) by (intro find_keyword_type_found) (auto simp: sel [unfolded key_def] key_def)
  then show ?thesis by simp
qed

theorem find_keyword_type_first_match_witness:
  "fst (find_keyword_type lang_c_state ''else if'' 4) = CT_ELSE
   \<and> fst (find_keyword_type (lang_c_state\<lparr>cpd_in_preproc := CT_PREPROC\<rparr>) ''else if'' 4) = CT_PP_ELSE"
proof -
  let ?pp = "lang_c_state\<lparr>cpd_in_preproc := CT_PREPROC\<rparr>"
  have key: "c_str (take 4 ''else if'') = ''else''" "c_str ''else'' = ''else''"
    by (simp_all add: c_str_def)
  have r52: "keyword_for_lang lang_c_state ! 52 = lang_c_rows ! 52"
    and r53: "keyword_for_lang lang_c_state ! 53 = lang_c_rows ! 53"
    by (simp_all add: lang_c_state_nth)
  have "map (\<lambda>row. (tag row, type row, lang_flags row)) (take 2 (drop 52 lang_c_rows)) ! 0
          = (''else'', CT_ELSE, LANG_ALL)"
    and "map (\<lambda>row. (tag row, type row, lang_flags row)) (take 2 (drop 52 lang_c_rows)) ! 1
          = (''else'', CT_PP_ELSE, LANG_ALL OR FLAG_PP)"
    using lang_c_else_rows by simp_all
  then have row52: "tag (lang_c_rows ! 52) = ''else''" "type (lang_c_rows ! 52) = CT_ELSE"
      "lang_flags (lang_c_rows ! 52) = LANG_ALL"
    and row53: "tag (lang_c_rows ! 53) = ''else''" "type (lang_c_rows ! 53) = CT_PP_ELSE"
      "lang_flags (lang_c_rows ! 53) = LANG_ALL OR FLAG_PP"
    using lang_c_rows_length by simp_all
  have before: "tag (keyword_for_lang lang_c_state ! j) \<noteq> ''else''" if "j < 52" for j
    using list_all_take_nth [of "\<lambda>row. tag row \<noteq> ''else''" 52 lang_c_rows j]
      lang_c_else_rows lang_c_rows_length that
    by (simp add: lang_c_state_nth)
  have inv: "kw_inv ?pp"
    using lang_c_state_facts(2) by (simp add: kw_inv_def kw_view_def)
  have ne: "CT_PREPROC \<noteq> CT_NONE" "CT_PREPROC \<noteq> CT_PP_DEFINE"
    by (simp_all add: E_Token_defs)
  have "fst (find_keyword_type lang_c_state ''else if'' 4) = type (keyword_for_lang lang_c_state ! 52)"
    using before
    by (intro find_keyword_type_first_match)
       (simp_all add: lang_c_state_facts key r52 row52 lang_defs)
  moreover
  have "fst (find_keyword_type ?pp ''else if'' 4) = type (keyword_for_lang ?pp ! 53)"
  proof (intro find_keyword_type_first_match)
    show "\<forall>j<53. tag (keyword_for_lang ?pp ! j) = c_str (take 4 ''else if'') \<longrightarrow>
            \<not> (lang_flags (keyword_for_lang ?pp ! j) AND cpd_lang_flags ?pp \<noteq> 0 \<and>
               (lang_flags (keyword_for_lang ?pp ! j) AND FLAG_PP \<noteq> 0) =
               ((if c_str (take 4 ''else if'') = ''__pragma'' \<or> c_str (take 4 ''else if'') = ''_Pragma''
                 then CT_PREPROC else cpd_in_preproc ?pp) \<noteq> CT_NONE \<and>
                (if c_str (take 4 ''else if'') = ''__pragma'' \<or> c_str (take 4 ''else if'') = ''_Pragma''
                 then CT_PREPROC else cpd_in_preproc ?pp) \<noteq> CT_PP_DEFINE))"
    proof (intro allI impI)
      fix j :: nat
      assume "j < 53" and "tag (keyword_for_lang ?pp ! j) = c_str (take 4 ''else if'')"
      then have "j = 52"
        using before [of j] by (cases "j < 52") (auto simp: key)
      then show "\<not> (lang_flags (keyword_for_lang ?pp ! j) AND cpd_lang_flags ?pp \<noteq> 0 \<and>
               (lang_flags (keyword_for_lang ?pp ! j) AND FLAG_PP \<noteq> 0) =
               ((if c_str (take 4 ''else if'') = ''__pragma'' \<or> c_str (take 4 ''else if'') = ''_Pragma''
                 then CT_PREPROC else cpd_in_preproc ?pp) \<noteq> CT_NONE \<and>
                (if c_str (take 4 ''else if'') = ''__pragma'' \<or> c_str (take 4 ''else if'') = ''_Pragma''
                 then CT_PREPROC else cpd_in_preproc ?pp) \<noteq> CT_PP_DEFINE))"
        by (simp add: key r52 row52 ne lang_defs)
    qed
  qed (simp_all add: inv lang_c_state_facts key r53 row53 ne lang_defs)
  ultimately show ?thesis
    by (simp add: r52 r53 row52 row53)
qed

text \<open>
  Claim C8. For a word of nonzero length that is no dynamic keyword: when no row in use has
  its spelling, or none of the rows with its spelling has both flags that intersect the
  active language flags and a preprocessor-only flag that agrees with the context,
  \<open>find_keyword_type\<close> returns \<open>CT_WORD\<close>. This holds for every content of the keyword
  array, so under any activation.
\<close>

theorem find_keyword_type_fallback:
  fixes st :: kw_state and word :: string and len :: nat
  defines "key \<equiv> c_str (take len word)"
  defines "ctx \<equiv> (if key = ''__pragma'' \<or> key = ''_Pragma'' then CT_PREPROC else cpd_in_preproc st)"
  defines "agrees \<equiv> \<lambda>row. lang_flags row AND cpd_lang_flags st \<noteq> 0
                        \<and> ((lang_flags row AND FLAG_PP \<noteq> 0) = (ctx \<noteq> CT_NONE \<and> ctx \<noteq> CT_PP_DEFINE))"
  assumes "0 < len" and "dkwm st (take len word) = None"
    and "\<forall>j<language_count st.
           tag (keyword_for_lang st ! j) = key \<longrightarrow> \<not> agrees (keyword_for_lang st ! j)"
  shows "fst (find_keyword_type st word len) = CT_WORD"
proof -
  have ctx: "cpd_in_preproc (primed st key) = ctx"
    by (simp add: primed_def ctx_def)
  have sel: "row_selected (primed st key) key row \<longleftrightarrow> tag row = key \<and> agrees row" for row
    by (auto simp: row_selected_def agrees_def ctx)
  show ?thesis
    using assms(4-6)
    by (intro find_keyword_type_not_found) (auto simp: sel [unfolded key_def] key_def)
qed

theorem find_keyword_type_fallback_witness:
  "fst (find_keyword_type lang_c_state ''zzzzznotaword'' 13) = CT_WORD
   \<and> fst (find_keyword_type lang_c_state ''define'' 6) = CT_WORD"
proof -
  have rows: "tag (keyword_for_lang lang_c_state ! j) \<noteq> ''zzzzznotaword''
              \<and> (tag (keyword_for_lang lang_c_state ! j) = ''define''
                  \<longrightarrow> lang_flags (keyword_for_lang lang_c_state ! j) AND FLAG_PP \<noteq> 0)"
    if "j < 95" for j
    using list_all_take_nth [of _ 95 lang_c_rows j, OF _ _ that] lang_c_fallback_rows
      lang_c_rows_length that
    by (simp add: lang_c_state_nth)
  have key: "c_str ''zzzzznotaword'' = ''zzzzznotaword''" "c_str ''define'' = ''define''"
    by (simp_all add: c_str_def)
  have "fst (find_keyword_type lang_c_state ''zzzzznotaword'' 13) = CT_WORD"
    using rows by (intro find_keyword_type_fallback) (simp_all add: lang_c_state_facts key)
  moreover have "fst (find_keyword_type lang_c_state ''define'' 6) = CT_WORD"
    using rows by (intro find_keyword_type_fallback) (simp_all add: lang_c_state_facts key)
  ultimately show ?thesis by simp
qed

section \<open>The side effect of the pragma spellings\<close>

lemma primed_idem:
  "primed (st\<lparr>cpd_in_preproc := CT_PREPROC\<rparr>) key = primed st key"
  if "key = ''__pragma'' \<or> key = ''_Pragma''"
  using that by (auto simp: primed_def)

lemma lang_c_pragma_define_rows:
  "tag (lang_c_rows ! 3) = ''_Pragma''
   \<and> map (\<lambda>row. (tag row, type row, lang_flags row)) (take 1 (drop 47 lang_c_rows))
       = [(''define'', CT_PP_DEFINE, LANG_ALL OR FLAG_PP)]
   \<and> list_all (\<lambda>row. tag row \<noteq> ''define'') (take 47 lang_c_rows)"
  by code_simp

text \<open>
  Claim C5. When the word is \<open>__pragma\<close> or \<open>_Pragma\<close>, is no dynamic keyword and is
  found among the rows in use, \<open>find_keyword_type\<close> leaves \<open>cpd.in_preproc\<close> at
  \<open>CT_PREPROC\<close>. The assignment comes before the rows are tested: the kind returned is
  the kind returned by a call that starts inside a directive. And it is seen by the next
  call: for a spelling all of whose rows are preprocessor-only, looked up from a state
  that is not inside a directive, the lookup gives \<open>CT_WORD\<close> before the pragma word is
  resolved and the kind of the first row for the active language after it.
\<close>

theorem find_keyword_type_primes_preproc:
  fixes st :: kw_state and word :: string and len :: nat
  defines "key \<equiv> c_str (take len word)"
  defines "st' \<equiv> snd (find_keyword_type st word len)"
  assumes "kw_inv st" and "0 < len" and "dkwm st (take len word) = None"
    and "key = ''__pragma'' \<or> key = ''_Pragma''"
    and "\<exists>i<language_count st. tag (keyword_for_lang st ! i) = key"
  shows "st' = st\<lparr>cpd_in_preproc := CT_PREPROC\<rparr>
    \<and> fst (find_keyword_type st word len)
        = fst (find_keyword_type (st\<lparr>cpd_in_preproc := CT_PREPROC\<rparr>) word len)
    \<and> (\<forall>word2 len2 i2.
          cpd_in_preproc st = CT_NONE
          \<and> 0 < len2 \<and> dkwm st (take len2 word2) = None
          \<and> c_str (take len2 word2) \<noteq> ''__pragma'' \<and> c_str (take len2 word2) \<noteq> ''_Pragma''
          \<and> (\<forall>j<language_count st. tag (keyword_for_lang st ! j) = c_str (take len2 word2)
                 \<longrightarrow> lang_flags (keyword_for_lang st ! j) AND FLAG_PP \<noteq> 0)
          \<and> i2 < language_count st
          \<and> tag (keyword_for_lang st ! i2) = c_str (take len2 word2)
          \<and> lang_flags (keyword_for_lang st ! i2) AND cpd_lang_flags st \<noteq> 0
          \<and> (\<forall>j<i2. tag (keyword_for_lang st ! j) = c_str (take len2 word2)
                 \<longrightarrow> lang_flags (keyword_for_lang st ! j) AND cpd_lang_flags st = 0)
          \<longrightarrow> fst (find_keyword_type st word2 len2) = CT_WORD
              \<and> fst (find_keyword_type st' word2 len2) = type (keyword_for_lang st ! i2))"
proof -
  let ?pp = "st\<lparr>cpd_in_preproc := CT_PREPROC\<rparr>"
  let ?k = "\<lparr>tag = key, type = CT_NONE, lang_flags = 0\<rparr>"
  have ne: "CT_PREPROC \<noteq> CT_NONE" "CT_PREPROC \<noteq> CT_PP_DEFINE"
    by (simp_all add: E_Token_defs)
  from assms(7) obtain i where "i < language_count st" "tag (keyword_for_lang st ! i) = tag ?k"
    by auto
  from bsearch_finds [OF assms(3) this]
  obtain p where p: "bsearch ?k (keyword_for_lang st) (language_count st) kw_compare = Some p"
    by blast
  have pr: "primed st key = ?pp"
    using assms(6) by (auto simp: primed_def)
  have st': "st' = ?pp"
    unfolding st'_def find_keyword_type_state using assms(4,5) p pr
    by (auto simp: key_def)
  have pr_pp: "primed ?pp key = ?pp"
    using assms(6) by (auto simp: primed_def)
  have "find_keyword_type st word len =
          (case kw_static_match ?pp p (cpd_lang_flags st) of
             None \<Rightarrow> (CT_WORD, ?pp)
           | Some r \<Rightarrow> (type (keyword_for_lang st ! r), ?pp))"
    using find_keyword_type_unfold [OF assms(4,5)] p [unfolded key_def] pr [unfolded key_def]
    by (simp cong: option.case_cong)
  moreover have "find_keyword_type ?pp word len =
          (case kw_static_match ?pp p (cpd_lang_flags st) of
             None \<Rightarrow> (CT_WORD, ?pp)
           | Some r \<Rightarrow> (type (keyword_for_lang st ! r), ?pp))"
    using find_keyword_type_unfold [of len ?pp word] assms(4,5) p [unfolded key_def]
      pr_pp [unfolded key_def]
    by (simp cong: option.case_cong)
  ultimately
  have same: "fst (find_keyword_type st word len) = fst (find_keyword_type ?pp word len)"
    by simp
  have obs: "fst (find_keyword_type st word2 len2) = CT_WORD
              \<and> fst (find_keyword_type st' word2 len2) = type (keyword_for_lang st ! i2)"
    if h: "cpd_in_preproc st = CT_NONE" "0 < len2" "dkwm st (take len2 word2) = None"
      "c_str (take len2 word2) \<noteq> ''__pragma''" "c_str (take len2 word2) \<noteq> ''_Pragma''"
      "\<forall>j<language_count st. tag (keyword_for_lang st ! j) = c_str (take len2 word2)
                 \<longrightarrow> lang_flags (keyword_for_lang st ! j) AND FLAG_PP \<noteq> 0"
      "i2 < language_count st"
      "tag (keyword_for_lang st ! i2) = c_str (take len2 word2)"
      "lang_flags (keyword_for_lang st ! i2) AND cpd_lang_flags st \<noteq> 0"
      "\<forall>j<i2. tag (keyword_for_lang st ! j) = c_str (take len2 word2)
                 \<longrightarrow> lang_flags (keyword_for_lang st ! j) AND cpd_lang_flags st = 0"
    for word2 len2 i2
  proof
    let ?key2 = "c_str (take len2 word2)"
    have p1: "primed st ?key2 = st" and p2: "primed ?pp ?key2 = ?pp"
      using h(4,5) by (simp_all add: primed_def)
    show "fst (find_keyword_type st word2 len2) = CT_WORD"
      using h(1,2,3,6)
      by (intro find_keyword_type_not_found) (auto simp: p1 row_selected_def)
    have "find_keyword_type ?pp word2 len2
            = (type (keyword_for_lang ?pp ! i2), primed ?pp ?key2)"
    proof (rule find_keyword_type_found)
      show "kw_inv ?pp"
        using assms(3) by (simp add: kw_inv_def kw_view_def)
      show "row_selected (primed ?pp ?key2) ?key2 (keyword_for_lang ?pp ! i2)"
        using h(6,7,8,9) by (simp add: p2 row_selected_def ne)
      show "\<forall>j<i2. \<not> row_selected (primed ?pp ?key2) ?key2 (keyword_for_lang ?pp ! j)"
        using h(10) by (simp add: p2 row_selected_def)
    qed (use h in simp_all)
    then show "fst (find_keyword_type st' word2 len2) = type (keyword_for_lang st ! i2)"
      by (simp add: st')
  qed
  from st' same obs show ?thesis
    by blast
qed

theorem find_keyword_type_primes_preproc_witness:
  "snd (find_keyword_type lang_c_state ''_Pragma'' 7) = lang_c_state\<lparr>cpd_in_preproc := CT_PREPROC\<rparr>
   \<and> fst (find_keyword_type lang_c_state ''_Pragma'' 7)
       = fst (find_keyword_type (lang_c_state\<lparr>cpd_in_preproc := CT_PREPROC\<rparr>) ''_Pragma'' 7)
   \<and> fst (find_keyword_type lang_c_state ''define'' 6) = CT_WORD
   \<and> fst (find_keyword_type (snd (find_keyword_type lang_c_state ''_Pragma'' 7)) ''define'' 6)
       = CT_PP_DEFINE"
proof -
  have key: "c_str (take 7 ''_Pragma'') = ''_Pragma''" "c_str (take 6 ''define'') = ''define''"
      "c_str ''_Pragma'' = ''_Pragma''" "c_str ''define'' = ''define''"
    by (simp_all add: c_str_def)
  have r3: "tag (keyword_for_lang lang_c_state ! 3) = ''_Pragma''"
    using lang_c_pragma_define_rows by (simp add: lang_c_state_nth)
  have "map (\<lambda>row. (tag row, type row, lang_flags row)) (take 1 (drop 47 lang_c_rows)) ! 0
          = (''define'', CT_PP_DEFINE, LANG_ALL OR FLAG_PP)"
    using lang_c_pragma_define_rows by simp
  then have r47: "tag (keyword_for_lang lang_c_state ! 47) = ''define''"
      "type (keyword_for_lang lang_c_state ! 47) = CT_PP_DEFINE"
      "lang_flags (keyword_for_lang lang_c_state ! 47) = LANG_ALL OR FLAG_PP"
    using lang_c_rows_length by (simp_all add: lang_c_state_nth)
  have before: "tag (keyword_for_lang lang_c_state ! j) \<noteq> ''define''" if "j < 47" for j
    using list_all_take_nth [of "\<lambda>row. tag row \<noteq> ''define''" 47 lang_c_rows j]
      lang_c_pragma_define_rows lang_c_rows_length that
    by (simp add: lang_c_state_nth)
  have pp_only: "tag (keyword_for_lang lang_c_state ! j) = ''define''
                  \<longrightarrow> lang_flags (keyword_for_lang lang_c_state ! j) AND FLAG_PP \<noteq> 0"
    if "j < 95" for j
    using list_all_take_nth [of "\<lambda>row. tag row \<noteq> ''zzzzznotaword''
                 \<and> (tag row = ''define'' \<longrightarrow> lang_flags row AND FLAG_PP \<noteq> 0)" 95 lang_c_rows j]
      lang_c_fallback_rows lang_c_rows_length that
    by (simp add: lang_c_state_nth)
  have hyps: "kw_inv lang_c_state" "0 < (7::nat)" "dkwm lang_c_state (take 7 ''_Pragma'') = None"
      "c_str (take 7 ''_Pragma'') = ''__pragma'' \<or> c_str (take 7 ''_Pragma'') = ''_Pragma''"
      "\<exists>i<language_count lang_c_state.
          tag (keyword_for_lang lang_c_state ! i) = c_str (take 7 ''_Pragma'')"
    using r3 by (auto simp: lang_c_state_facts key intro: exI [of _ 3])
  note thm5 = find_keyword_type_primes_preproc [OF hyps]
  have obs: "fst (find_keyword_type lang_c_state ''define'' 6) = CT_WORD
     \<and> fst (find_keyword_type (snd (find_keyword_type lang_c_state ''_Pragma'' 7)) ''define'' 6)
         = type (keyword_for_lang lang_c_state ! 47)"
    using before pp_only
    by (intro thm5 [THEN conjunct2, THEN conjunct2, rule_format, of 6 "''define''" 47])
       (simp add: lang_c_state_facts key r47 lang_defs)
  from thm5 [THEN conjunct1] thm5 [THEN conjunct2, THEN conjunct1] obs r47(2)
  show ?thesis by simp
qed

section \<open>What a lookup changes\<close>

text \<open>
  Claim C10. \<open>find_keyword_type\<close> leaves the dynamic keywords, the keyword array, the
  number of rows in use and the language flags as they are (the table \<open>keywords[]\<close> is a
  constant). It changes the state in one case only, by setting \<open>cpd.in_preproc\<close> to
  \<open>CT_PREPROC\<close>: the length is not zero, the word is no dynamic keyword, \<open>bsearch\<close>
  finds a row, and the spelling is \<open>__pragma\<close> or \<open>_Pragma\<close>. With length zero, with a
  dynamic keyword or with any other spelling the state is unchanged.
\<close>

theorem find_keyword_type_frame:
  fixes st :: kw_state and word :: string and len :: nat
  defines "key \<equiv> c_str (take len word)"
  defines "st' \<equiv> snd (find_keyword_type st word len)"
  shows "st' =
           (if 0 < len \<and> dkwm st (take len word) = None
               \<and> (\<exists>p. bsearch \<lparr>tag = key, type = CT_NONE, lang_flags = 0\<rparr>
                         (keyword_for_lang st) (language_count st) kw_compare = Some p)
               \<and> (key = ''__pragma'' \<or> key = ''_Pragma'')
            then st\<lparr>cpd_in_preproc := CT_PREPROC\<rparr> else st)
    \<and> dkwm st' = dkwm st
    \<and> keyword_for_lang st' = keyword_for_lang st
    \<and> language_count st' = language_count st
    \<and> cpd_lang_flags st' = cpd_lang_flags st
    \<and> (len = 0 \<or> dkwm st (take len word) \<noteq> None
           \<or> (key \<noteq> ''__pragma'' \<and> key \<noteq> ''_Pragma'') \<longrightarrow> st' = st)"
proof -
  have "st' =
           (if 0 < len \<and> dkwm st (take len word) = None
               \<and> (\<exists>p. bsearch \<lparr>tag = key, type = CT_NONE, lang_flags = 0\<rparr>
                         (keyword_for_lang st) (language_count st) kw_compare = Some p)
               \<and> (key = ''__pragma'' \<or> key = ''_Pragma'')
            then st\<lparr>cpd_in_preproc := CT_PREPROC\<rparr> else st)"
    unfolding st'_def key_def find_keyword_type_state
    by (auto simp: primed_def)
  then show ?thesis
    by (auto split: if_splits)
qed

theorem find_keyword_type_frame_witness:
  "snd (find_keyword_type lang_c_state ''_Pragma'' 7) = lang_c_state\<lparr>cpd_in_preproc := CT_PREPROC\<rparr>
   \<and> snd (find_keyword_type lang_c_state ''if'' 2) = lang_c_state
   \<and> snd (find_keyword_type lang_c_state ''_Pragma'' 0) = lang_c_state
   \<and> snd (find_keyword_type (add_keyword lang_c_state ''_Pragma'' CT_TYPE) ''_Pragma'' 7)
       = add_keyword lang_c_state ''_Pragma'' CT_TYPE"
proof -
  have key: "c_str ''_Pragma'' = ''_Pragma''" "c_str ''if'' = ''if''"
    by (simp_all add: c_str_def)
  have r3: "tag (keyword_for_lang lang_c_state ! 3) = tag \<lparr>tag = ''_Pragma'', type = CT_NONE, lang_flags = 0\<rparr>"
    using lang_c_pragma_define_rows by (simp add: lang_c_state_nth)
  have found: "\<exists>p. bsearch \<lparr>tag = ''_Pragma'', type = CT_NONE, lang_flags = 0\<rparr>
                 (keyword_for_lang lang_c_state) (language_count lang_c_state) kw_compare = Some p"
    using lang_c_state_facts(2,4) r3 by (intro bsearch_finds [of _ 3]) simp_all
  have "snd (find_keyword_type lang_c_state ''_Pragma'' 7)
          = lang_c_state\<lparr>cpd_in_preproc := CT_PREPROC\<rparr>"
    using find_keyword_type_frame [where st = lang_c_state and len = 7 and word = "''_Pragma''",
            THEN conjunct1] found
    by (simp add: key lang_c_state_facts)
  moreover have "snd (find_keyword_type lang_c_state ''if'' 2) = lang_c_state"
    using find_keyword_type_frame [where st = lang_c_state and len = 2 and word = "''if''"]
    by (simp add: key)
  moreover have "snd (find_keyword_type lang_c_state ''_Pragma'' 0) = lang_c_state"
    using find_keyword_type_frame [where st = lang_c_state and len = 0 and word = "''_Pragma''"]
    by simp
  moreover have "snd (find_keyword_type (add_keyword lang_c_state ''_Pragma'' CT_TYPE) ''_Pragma'' 7)
       = add_keyword lang_c_state ''_Pragma'' CT_TYPE"
    using find_keyword_type_frame [where st = "add_keyword lang_c_state ''_Pragma'' CT_TYPE"
            and len = 7 and word = "''_Pragma''"]
    by (simp add: add_keyword_def lang_c_state_facts)
  ultimately show ?thesis by simp
qed

section \<open>Loading a keyword file, line by line\<close>

declare lines_of.simps [simp del]
declare load_keyword_loop.simps [simp del]

lemma fgets_take_line_split:
  "length (fst (line_split s)) \<le> k \<Longrightarrow> fgets_take k s = line_split s"
proof (induction k s rule: fgets_take.induct)
  case (1 s)
  then show ?case
    using line_split_nonempty [of s] by (cases "s = []") auto
next
  case (2 k)
  then show ?case by simp
next
  case (3 k c s)
  then show ?case by (auto split: prod.splits)
qed

lemma line_split_subset:
  "set (fst (line_split s)) \<subseteq> set s \<and> set (snd (line_split s)) \<subseteq> set s"
  by (induction s) (simp_all add: case_prod_beta subset_insertI2)

lemma c_str_no_nul: "CHR 0x00 \<notin> set s \<Longrightarrow> c_str s = s"
  unfolding c_str_def by (induction s) auto

lemma add_keyword_eq: "add_keyword st tg ty = st\<lparr>dkwm := (dkwm st)(tg \<mapsto> ty)\<rparr>"
  by (simp add: add_keyword_def split: option.splits)

lemma load_keyword_loop_lines:
  assumes "\<forall>l\<in>set (lines_of pf). length l \<le> 255" and "CHR 0x00 \<notin> set pf"
    and "\<not> IsKw1 (CHR 0x00)"
  shows "load_keyword_loop SplitLine IsKw1 filename pf n st
           = spec_load_lines SplitLine IsKw1 filename (lines_of pf) n st"
  using assms(1,2)
proof (induction pf arbitrary: n st rule: lines_of.induct)
  case (1 s)
  show ?case
  proof (cases "s = []")
    case True
    then show ?thesis
      by (simp add: lines_of.simps [of "[]"] load_keyword_loop.simps [of _ _ _ "[]"] fgets_def)
  next
    case False
    obtain l r where lr: "line_split s = (l, r)"
      by (cases "line_split s")
    have lines: "lines_of s = l # lines_of r"
      using False lr by (simp add: lines_of.simps [of s])
    with "1.prems" have len: "length l \<le> 255" and rest: "\<forall>l\<in>set (lines_of r). length l \<le> 255"
      by simp_all
    have sets: "set l \<subseteq> set s" "set r \<subseteq> set s"
      using line_split_subset [of s] lr by simp_all
    with "1.prems" have nul: "CHR 0x00 \<notin> set l" "CHR 0x00 \<notin> set r"
      by auto
    have fg: "fgets max_line_length s = Some (l, r)"
      using False len lr fgets_take_line_split [of s 255]
      by (simp add: fgets_def max_line_length_def)
    have IH: "load_keyword_loop SplitLine IsKw1 filename r n' st'
                = spec_load_lines SplitLine IsKw1 filename (lines_of r) n' st'" for n' st'
      using "1.IH" [OF False lr [symmetric] refl rest nul(2)] .
    show ?thesis
    proof (cases "SplitLine (takeWhile (\<lambda>c. c \<noteq> CHR ''#'') l) 2")
      case Nil
      then show ?thesis
        by (simp add: load_keyword_loop.simps [of _ _ _ s] fg lines c_str_no_nul [OF nul(1)]
            max_arg_count_def IH)
    next
      case (Cons w ws)
      show ?thesis
      proof (cases ws)
        case Nil
        have "IsKw1 (first_byte w) = (case w of [] \<Rightarrow> False | c # cs \<Rightarrow> IsKw1 c)"
          using assms(3) by (cases w) (simp_all add: first_byte_def)
        with Cons Nil show ?thesis
          by (simp add: load_keyword_loop.simps [of _ _ _ s] fg lines c_str_no_nul [OF nul(1)]
              max_arg_count_def IH add_keyword_eq Let_def)
      next
        case (Cons w' ws')
        with \<open>SplitLine (takeWhile (\<lambda>c. c \<noteq> CHR ''#'') l) 2 = w # ws\<close> show ?thesis
          by (simp add: load_keyword_loop.simps [of _ _ _ s] fg lines c_str_no_nul [OF nul(1)]
              max_arg_count_def)
      qed
    qed
  qed
qed

lemma round_trip_lines:
  "lines_of round_trip_source = [''foo'' @ [CHR 0x0A], ''# comment'' @ [CHR 0x0A], ''bar # trailing'' @ [CHR 0x0A]]"
  by code_simp

lemma bad_source_lines:
  "lines_of bad_source = [''foo'' @ [CHR 0x0A], ''123abc'' @ [CHR 0x0A], ''bar'' @ [CHR 0x0A]]"
  by code_simp

lemma long_comment_code:
  "(case load_keyword_file split_words is_ident_start [''kw.cfg'' \<mapsto> long_comment] ''kw.cfg''
           (start_state 0) of
      Inl e \<Rightarrow> False
    | Inr (status, st) \<Rightarrow> status = EX_OK \<and> dkwm st ''zap'' = Some CT_TYPE)"
  by code_simp

lemma long_comment_line: "lines_of long_comment = [long_comment]"
  by code_simp

lemma long_comment_text: "takeWhile (\<lambda>c. c \<noteq> CHR ''#'') long_comment = []"
  by (simp add: long_comment_def)

text \<open>
  Claim C6, as stated, fails on a line that does not fit into the line buffer of 256
  bytes: \<open>fgets\<close> hands such a line over in pieces and every piece is treated as a line
  of its own. The source \<open>long_comment\<close> is one line that is a comment from its first
  byte on, so nothing should be registered; \<open>load_keyword_file\<close> returns \<open>EX_OK\<close>
  with \<open>zap\<close>, the end of the comment, registered as a type.
\<close>

theorem load_keyword_file_long_comment_counterexample:
  "lines_of long_comment = [long_comment]
   \<and> takeWhile (\<lambda>c. c \<noteq> CHR ''#'') long_comment = []
   \<and> spec_load_from_source split_words is_ident_start [''kw.cfg'' \<mapsto> long_comment] ''kw.cfg''
        (start_state 0) = Inr (EX_OK, start_state 0)
   \<and> dkwm (start_state 0) ''zap'' = None
   \<and> (case load_keyword_file split_words is_ident_start [''kw.cfg'' \<mapsto> long_comment] ''kw.cfg''
           (start_state 0) of
        Inl e \<Rightarrow> False
      | Inr (status, st) \<Rightarrow> status = EX_OK \<and> dkwm st ''zap'' = Some CT_TYPE)"
  using long_comment_code
  by (simp add: long_comment_line long_comment_text spec_load_from_source_def split_words_def is_space_def
      start_state_def)

text \<open>
  Claim C6, amended. For a source without NUL bytes whose lines, newline included, are at
  most 255 bytes long, \<open>load_keyword_file\<close> is the loader of the specification: it
  strips the comment of each line, skips the lines without a word, registers the word of
  every line of exactly one word that starts with an identifier-start character as
  \<open>CT_TYPE\<close>, ends the process with \<open>EX_SOFTWARE\<close> and a message naming the file and the
  line, counted from 1, at the first other line (the words registered before stay
  registered), ends the process with \<open>EX_IOERR\<close> when the file cannot be opened, and
  returns \<open>EX_OK\<close> otherwise. NUL is taken not to be an identifier-start character.
\<close>

theorem load_keyword_file_lines:
  assumes "\<forall>content. fs filename = Some content
             \<longrightarrow> (\<forall>l\<in>set (lines_of content). length l \<le> 255) \<and> CHR 0x00 \<notin> set content"
    and "\<not> IsKw1 (CHR 0x00)"
  shows "load_keyword_file SplitLine IsKw1 fs filename st
           = spec_load_from_source SplitLine IsKw1 fs filename st"
proof (cases "fs filename")
  case None
  then show ?thesis
    by (simp add: load_keyword_file_def spec_load_from_source_def)
next
  case (Some content)
  with assms(1) have "\<forall>l\<in>set (lines_of content). length l \<le> 255" "CHR 0x00 \<notin> set content"
    by simp_all
  from load_keyword_loop_lines [of content IsKw1, OF this assms(2)] Some
  show ?thesis
    by (simp add: load_keyword_file_def spec_load_from_source_def)
qed

theorem load_keyword_file_lines_witness:
  "load_keyword_file split_words is_ident_start [''kw.cfg'' \<mapsto> round_trip_source] ''kw.cfg''
       (start_state 0)
     = Inr (EX_OK, (start_state 0)\<lparr>dkwm := [''foo'' \<mapsto> CT_TYPE, ''bar'' \<mapsto> CT_TYPE]\<rparr>)
   \<and> load_keyword_file split_words is_ident_start [''kw.cfg'' \<mapsto> bad_source] ''kw.cfg''
       (start_state 0)
     = Inl (EX_SOFTWARE, Invalid_line ''kw.cfg'' 2 ''123abc'',
            (start_state 0)\<lparr>dkwm := [''foo'' \<mapsto> CT_TYPE]\<rparr>)
   \<and> load_keyword_file split_words is_ident_start [''kw.cfg'' \<mapsto> round_trip_source] ''other.cfg''
       (start_state 0)
     = Inl (EX_IOERR, Fopen_failed ''other.cfg'', start_state 0)"
proof -
  have nul: "\<not> is_ident_start (CHR 0x00)"
    by (simp add: is_ident_start_def)
  have ok1: "\<forall>content. [''kw.cfg'' \<mapsto> round_trip_source] ''kw.cfg'' = Some content
             \<longrightarrow> (\<forall>l\<in>set (lines_of content). length l \<le> 255) \<and> CHR 0x00 \<notin> set content"
    by (simp add: round_trip_lines) (simp add: round_trip_source_def)
  have ok2: "\<forall>content. [''kw.cfg'' \<mapsto> bad_source] ''kw.cfg'' = Some content
             \<longrightarrow> (\<forall>l\<in>set (lines_of content). length l \<le> 255) \<and> CHR 0x00 \<notin> set content"
    by (simp add: bad_source_lines) (simp add: bad_source_def)
  have ok3: "\<forall>content. [''kw.cfg'' \<mapsto> round_trip_source] ''other.cfg'' = Some content
             \<longrightarrow> (\<forall>l\<in>set (lines_of content). length l \<le> 255) \<and> CHR 0x00 \<notin> set content"
    by simp
  have id: "is_ident_start CHR ''f''" "is_ident_start CHR ''b''" "\<not> is_ident_start CHR ''1''"
    by (simp_all add: is_ident_start_def)
  have "load_keyword_file split_words is_ident_start [''kw.cfg'' \<mapsto> round_trip_source] ''kw.cfg''
       (start_state 0)
     = Inr (EX_OK, (start_state 0)\<lparr>dkwm := [''foo'' \<mapsto> CT_TYPE, ''bar'' \<mapsto> CT_TYPE]\<rparr>)"
    unfolding load_keyword_file_lines
        [of "[''kw.cfg'' \<mapsto> round_trip_source]" "''kw.cfg''" is_ident_start, OF ok1 nul]
    by (simp add: spec_load_from_source_def round_trip_lines split_words_def is_space_def id start_state_def)
  moreover
  have "load_keyword_file split_words is_ident_start [''kw.cfg'' \<mapsto> bad_source] ''kw.cfg''
       (start_state 0)
     = Inl (EX_SOFTWARE, Invalid_line ''kw.cfg'' 2 ''123abc'',
            (start_state 0)\<lparr>dkwm := [''foo'' \<mapsto> CT_TYPE]\<rparr>)"
    unfolding load_keyword_file_lines
        [of "[''kw.cfg'' \<mapsto> bad_source]" "''kw.cfg''" is_ident_start, OF ok2 nul]
    by (simp add: spec_load_from_source_def bad_source_lines split_words_def is_space_def id start_state_def)
  moreover
  have "load_keyword_file split_words is_ident_start [''kw.cfg'' \<mapsto> round_trip_source] ''other.cfg''
       (start_state 0)
     = Inl (EX_IOERR, Fopen_failed ''other.cfg'', start_state 0)"
    unfolding load_keyword_file_lines
        [of "[''kw.cfg'' \<mapsto> round_trip_source]" "''other.cfg''" is_ident_start, OF ok3 nul]
    by (simp add: spec_load_from_source_def)
  ultimately show ?thesis by simp
qed

end
